theory Spec2Isabelle
  imports Main "HOL-Library.Word"
begin

unbundle bit_operations_syntax

section \<open>The management client of tools/btmgmt.c\<close>

text \<open>
  A shallow embedding of the event handlers, the response callbacks and the request helpers of
  \<^verbatim>\<open>tools/btmgmt.c\<close>. The file's global variables become the fields of one record that
  every function takes and returns; a call of \<^verbatim>\<open>g_main_loop_quit(event_loop)\<close> clears the
  field \<open>is_running\<close>; \<^verbatim>\<open>printf\<close> and \<^verbatim>\<open>fprintf(stderr, ...)\<close> append
  the format string and its arguments to \<open>stdout\<close> and \<open>stderr\<close>; \<^verbatim>\<open>fgets\<close>
  consumes the character list \<open>stdin\<close>. An access outside a local buffer is a value of type
  \<open>fault\<close>.
\<close>

subsection \<open>Integers, addresses and wire structures\<close>

type_synonym u8 = "8 word"
type_synonym u16 = "16 word"
type_synonym u32 = "32 word"

text \<open>\<^verbatim>\<open>struct mgmt_addr_info { bdaddr_t bdaddr; uint8_t type; }\<close>\<close>

record mgmt_addr_info =
  bdaddr :: "u8 list"
  type :: u8

text \<open>
  The header \<^verbatim>\<open>lib/mgmt.h\<close> that declares the packed structures of the protocol is not
  among the sources. Their sizes and field offsets below are those of the management protocol:
  an address is six bytes followed by one type byte, integers are little-endian.
\<close>

definition sizeof_mgmt_addr_info :: nat where "sizeof_mgmt_addr_info = 7"
definition sizeof_mgmt_ev_controller_error :: nat where "sizeof_mgmt_ev_controller_error = 1"
definition sizeof_uint32_t :: nat where "sizeof_uint32_t = 4"
definition sizeof_mgmt_ev_discovering :: nat where "sizeof_mgmt_ev_discovering = 2"
definition sizeof_mgmt_ev_new_link_key :: nat where "sizeof_mgmt_ev_new_link_key = 26"
definition sizeof_mgmt_ev_device_connected :: nat where "sizeof_mgmt_ev_device_connected = 13"
definition sizeof_mgmt_ev_device_disconnected :: nat where "sizeof_mgmt_ev_device_disconnected = 8"
definition sizeof_mgmt_ev_connect_failed :: nat where "sizeof_mgmt_ev_connect_failed = 8"
definition sizeof_mgmt_ev_auth_failed :: nat where "sizeof_mgmt_ev_auth_failed = 8"
definition sizeof_mgmt_ev_local_name_changed :: nat where "sizeof_mgmt_ev_local_name_changed = 260"
definition sizeof_mgmt_ev_device_found :: nat where "sizeof_mgmt_ev_device_found = 14"
definition sizeof_mgmt_ev_pin_code_request :: nat where "sizeof_mgmt_ev_pin_code_request = 8"
definition sizeof_mgmt_ev_user_confirm_request :: nat where "sizeof_mgmt_ev_user_confirm_request = 12"
definition sizeof_mgmt_ev_class_of_dev_changed :: nat where "sizeof_mgmt_ev_class_of_dev_changed = 3"
definition sizeof_mgmt_rp_confirm_name :: nat where "sizeof_mgmt_rp_confirm_name = 7"
definition sizeof_mgmt_rp_read_info :: nat where "sizeof_mgmt_rp_read_info = 280"
definition sizeof_uint16_t :: nat where "sizeof_uint16_t = 2"
definition sizeof_mgmt_rp_read_version :: nat where "sizeof_mgmt_rp_read_version = 3"
definition sizeof_mgmt_rp_read_commands :: nat where "sizeof_mgmt_rp_read_commands = 4"
definition sizeof_mgmt_rp_read_index_list :: nat where "sizeof_mgmt_rp_read_index_list = 2"
definition sizeof_mgmt_rp_disconnect :: nat where "sizeof_mgmt_rp_disconnect = 7"
definition sizeof_mgmt_rp_get_connections :: nat where "sizeof_mgmt_rp_get_connections = 2"
definition sizeof_mgmt_rp_pair_device :: nat where "sizeof_mgmt_rp_pair_device = 7"
definition sizeof_mgmt_rp_unpair_device :: nat where "sizeof_mgmt_rp_unpair_device = 7"
definition sizeof_mgmt_cp_confirm_name :: nat where "sizeof_mgmt_cp_confirm_name = 8"
definition sizeof_mgmt_cp_pin_code_reply :: nat where "sizeof_mgmt_cp_pin_code_reply = 24"
definition sizeof_mgmt_cp_pin_code_neg_reply :: nat where "sizeof_mgmt_cp_pin_code_neg_reply = 7"
definition sizeof_mgmt_cp_user_confirm_reply :: nat where "sizeof_mgmt_cp_user_confirm_reply = 7"

text \<open>The capacity of \<^verbatim>\<open>uint8_t pin_code[16]\<close> in \<^verbatim>\<open>struct mgmt_cp_pin_code_reply\<close>.\<close>

definition sizeof_pin_code :: nat where "sizeof_pin_code = 16"

definition MGMT_DEV_FOUND_CONFIRM_NAME :: u32 where "MGMT_DEV_FOUND_CONFIRM_NAME = 0x01"
definition MGMT_DEV_DISCONN_UNKNOWN :: u8 where "MGMT_DEV_DISCONN_UNKNOWN = 0x00"
definition BDADDR_LE_RANDOM :: u8 where "BDADDR_LE_RANDOM = 0x02"

definition MGMT_OP_READ_INFO :: u16 where "MGMT_OP_READ_INFO = 0x0004"
definition MGMT_OP_SET_POWERED :: u16 where "MGMT_OP_SET_POWERED = 0x0005"
definition MGMT_OP_SET_DEV_CLASS :: u16 where "MGMT_OP_SET_DEV_CLASS = 0x000E"
definition MGMT_OP_PIN_CODE_REPLY :: u16 where "MGMT_OP_PIN_CODE_REPLY = 0x0016"
definition MGMT_OP_PIN_CODE_NEG_REPLY :: u16 where "MGMT_OP_PIN_CODE_NEG_REPLY = 0x0017"
definition MGMT_OP_USER_CONFIRM_REPLY :: u16 where "MGMT_OP_USER_CONFIRM_REPLY = 0x001C"
definition MGMT_OP_USER_CONFIRM_NEG_REPLY :: u16 where "MGMT_OP_USER_CONFIRM_NEG_REPLY = 0x001D"
definition MGMT_OP_CONFIRM_NAME :: u16 where "MGMT_OP_CONFIRM_NAME = 0x0025"

text \<open>Reading a field of the structure that \<^verbatim>\<open>param\<close> points to, at a byte offset.\<close>

definition get_u8 :: "u8 list \<Rightarrow> nat \<Rightarrow> u8" where
  "get_u8 param off = param ! off"

definition bt_get_le16 :: "u8 list \<Rightarrow> nat \<Rightarrow> u16" where
  "bt_get_le16 param off =
     ucast (param ! off) OR push_bit 8 (ucast (param ! (off + 1)))"

definition bt_get_le32 :: "u8 list \<Rightarrow> nat \<Rightarrow> u32" where
  "bt_get_le32 param off =
     ucast (param ! off) OR push_bit 8 (ucast (param ! (off + 1)))
       OR push_bit 16 (ucast (param ! (off + 2))) OR push_bit 24 (ucast (param ! (off + 3)))"

definition get_bytes :: "u8 list \<Rightarrow> nat \<Rightarrow> nat \<Rightarrow> u8 list" where
  "get_bytes param off n = take n (drop off param)"

definition get_addr :: "u8 list \<Rightarrow> nat \<Rightarrow> mgmt_addr_info" where
  "get_addr param off = \<lparr>bdaddr = get_bytes param off 6, type = get_u8 param (off + 6)\<rparr>"

subsection \<open>Output, requests and the program state\<close>

text \<open>
  One argument of a \<^verbatim>\<open>printf\<close>. The conversions \<^verbatim>\<open>ba2str\<close>,
  \<^verbatim>\<open>mgmt_errstr\<close>, \<^verbatim>\<open>mgmt_opstr\<close> and \<^verbatim>\<open>mgmt_evstr\<close> are kept
  symbolic: they format a value and decide nothing.
\<close>

datatype arg =
    U nat
  | D int
  | S string
  | B "u8 list"
  | Ba2str "u8 list"
  | Errstr u8
  | Opstr u16
  | Evstr u16

type_synonym line = "string \<times> arg list"

datatype cmd_callback = Setting_rsp | Class_rsp | Block_rsp

text \<open>\<^verbatim>\<open>struct command_data { uint16_t id; uint16_t op; void (*callback)(...); }\<close>\<close>

datatype command_data = Command_data (data_id: u16) (data_op: u16) (data_callback: cmd_callback)

text \<open>
  A response callback together with its \<^verbatim>\<open>user_data\<close>, as the last arguments of
  \<^verbatim>\<open>mgmt_send\<close> and \<^verbatim>\<open>mgmt_reply\<close> name them.
\<close>

datatype callback =
    Confirm_name_rsp
  | Pin_rsp
  | Pin_neg_rsp
  | Confirm_rsp
  | Confirm_neg_rsp
  | Version_rsp
  | Commands_rsp
  | Info_rsp int
  | Index_rsp
  | Cmd_rsp command_data
  | Disconnect_rsp
  | Con_rsp
  | Find_rsp
  | Name_rsp
  | Pair_rsp
  | Cancel_pair_rsp
  | Unpair_rsp
  | Keys_rsp
  | Did_rsp

text \<open>The parameter block of a request: the local \<^verbatim>\<open>cp\<close> of the function that sends it.\<close>

datatype cmd_param =
    Cp_confirm_name (cp_addr: mgmt_addr_info) (name_known: u8)
  | Cp_pin_code_reply (cp_addr: mgmt_addr_info) (pin_len: u8) (pin_code: string)
  | Cp_pin_code_neg_reply (cp_addr: mgmt_addr_info)
  | Cp_user_confirm_reply (cp_addr: mgmt_addr_info)
  | Cp_bytes "u8 list"

record request =
  req_opcode :: u16
  req_index :: u16
  req_length :: u16
  req_param :: cmd_param
  req_callback :: callback

record mgmt =
  transport_ok :: bool
  next_request_id :: u32
  pending_calls :: "(u32 \<times> request) list"

record state =
  is_running :: bool
  monitor :: bool
  discovery :: bool
  resolve_names :: bool
  pending :: int
  mgmt :: mgmt
  stdin :: string
  stdout :: "line list"
  stderr :: "line list"

datatype fault =
    Read_outside_buffer
  | Write_past_pin_code nat

definition printf :: "string \<Rightarrow> arg list \<Rightarrow> state \<Rightarrow> state" where
  "printf fmt args s = s\<lparr>stdout := stdout s @ [(fmt, args)]\<rparr>"

definition fprintf_stderr :: "string \<Rightarrow> arg list \<Rightarrow> state \<Rightarrow> state" where
  "fprintf_stderr fmt args s = s\<lparr>stderr := stderr s @ [(fmt, args)]\<rparr>"

text \<open>A loop whose body is one \<^verbatim>\<open>printf\<close>: the lines it prints, in order.\<close>

definition printf_each :: "line list \<Rightarrow> state \<Rightarrow> state" where
  "printf_each ls s = foldl (\<lambda>s' l. printf (fst l) (snd l) s') s ls"

definition g_main_loop_quit :: "state \<Rightarrow> state" where
  "g_main_loop_quit s = s\<lparr>is_running := False\<rparr>"

text \<open>
  Modelled from the spec: \<^verbatim>\<open>mgmt_send\<close> and \<^verbatim>\<open>mgmt_reply\<close> of
  \<^verbatim>\<open>src/shared/mgmt.c\<close>, which is not among the sources. A submission fails, returning
  the invalid identifier 0, if the transport cannot accept the write; on success it returns a
  non-zero identifier and inserts the pending call.
\<close>

definition mgmt_send :: "request \<Rightarrow> mgmt \<Rightarrow> u32 \<times> mgmt" where
  "mgmt_send r m =
     (if transport_ok m then
        (let n = (if next_request_id m = 0 then 1 else next_request_id m)
         in (n, m\<lparr>next_request_id := n + 1, pending_calls := pending_calls m @ [(n, r)]\<rparr>))
      else (0, m))"

definition mgmt_reply :: "request \<Rightarrow> mgmt \<Rightarrow> u32 \<times> mgmt" where
  "mgmt_reply r m = mgmt_send r m"

subsection \<open>Event handlers that only report\<close>

definition settings_str :: "string list" where
  "settings_str = [''powered'', ''connectable'', ''fast-connectable'', ''discoverable'',
     ''pairable'', ''link-security'', ''ssp'', ''br/edr'', ''hs'', ''le'']"

definition print_settings :: "u32 \<Rightarrow> state \<Rightarrow> state" where
  "print_settings settings s =
     foldl (\<lambda>s' i. if settings AND push_bit i 1 \<noteq> 0 then printf ''%s '' [S (settings_str ! i)] s'
                     else s')
       s [0..<length settings_str]"

definition typestr :: "u8 \<Rightarrow> string" where
  "typestr t =
     (if t \<le> BDADDR_LE_RANDOM then [''BR/EDR'', ''LE Public'', ''LE Random''] ! unat t
      else ''(unknown)'')"

definition controller_error :: "u16 \<Rightarrow> u16 \<Rightarrow> u8 list \<Rightarrow> state \<Rightarrow> state" where
  "controller_error index len param s =
     (if unat len < sizeof_mgmt_ev_controller_error then
        fprintf_stderr ''Too short (%u bytes) controller error event\<newline>'' [U (unat len)] s
      else if monitor s then
        printf ''hci%u error 0x%02x\<newline>'' [U (unat index), U (unat (get_u8 param 0))] s
      else s)"

definition index_added :: "u16 \<Rightarrow> u16 \<Rightarrow> u8 list \<Rightarrow> state \<Rightarrow> state" where
  "index_added index len param s =
     (if monitor s then printf ''hci%u added\<newline>'' [U (unat index)] s else s)"

definition index_removed :: "u16 \<Rightarrow> u16 \<Rightarrow> u8 list \<Rightarrow> state \<Rightarrow> state" where
  "index_removed index len param s =
     (if monitor s then printf ''hci%u removed\<newline>'' [U (unat index)] s else s)"

definition new_settings :: "u16 \<Rightarrow> u16 \<Rightarrow> u8 list \<Rightarrow> state \<Rightarrow> state" where
  "new_settings index len param s =
     (if unat len < sizeof_uint32_t then
        fprintf_stderr ''Too short new_settings event (%u)\<newline>'' [U (unat len)] s
      else if monitor s then
        printf ''\<newline>'' []
          (print_settings (bt_get_le32 param 0)
            (printf ''hci%u new_settings: '' [U (unat index)] s))
      else s)"

definition new_link_key :: "u16 \<Rightarrow> u16 \<Rightarrow> u8 list \<Rightarrow> state \<Rightarrow> state" where
  "new_link_key index len param s =
     (if unat len \<noteq> sizeof_mgmt_ev_new_link_key then
        fprintf_stderr ''Invalid new_link_key length (%u bytes)\<newline>'' [U (unat len)] s
      else if monitor s then
        printf ''hci%u new_link_key %s type 0x%02x pin_len %d store_hint %u\<newline>''
          [U (unat index), Ba2str (bdaddr (get_addr param 1)), U (unat (get_u8 param 8)),
           D (uint (get_u8 param 25)), U (unat (get_u8 param 0))] s
      else s)"

definition connected :: "u16 \<Rightarrow> u16 \<Rightarrow> u8 list \<Rightarrow> state \<Rightarrow> state" where
  "connected index len param s =
     (if unat len < sizeof_mgmt_ev_device_connected then
        fprintf_stderr ''Invalid connected event length (%u bytes)\<newline>'' [U (unat len)] s
      else
        (let eir_len = bt_get_le16 param 11 in
         if unat len \<noteq> sizeof_mgmt_ev_device_connected + unat eir_len then
           fprintf_stderr ''Invalid connected event length (%u bytes, eir_len %u bytes)\<newline>''
             [U (unat len), U (unat eir_len)] s
         else if monitor s then
           printf ''hci%u %s type %s connected eir_len %u\<newline>''
             [U (unat index), Ba2str (bdaddr (get_addr param 0)),
              S (typestr (type (get_addr param 0))), U (unat eir_len)] s
         else s))"

definition disconnected :: "u16 \<Rightarrow> u16 \<Rightarrow> u8 list \<Rightarrow> state \<Rightarrow> state" where
  "disconnected index len param s =
     (if unat len < sizeof_mgmt_addr_info then
        fprintf_stderr ''Invalid disconnected event length (%u bytes)\<newline>'' [U (unat len)] s
      else if monitor s then
        (let reason = (if unat len < sizeof_mgmt_ev_device_disconnected
                       then MGMT_DEV_DISCONN_UNKNOWN else get_u8 param 7)
         in printf ''hci%u %s type %s disconnected with reason %u\<newline>''
              [U (unat index), Ba2str (bdaddr (get_addr param 0)),
               S (typestr (type (get_addr param 0))), U (unat reason)] s)
      else s)"

definition conn_failed :: "u16 \<Rightarrow> u16 \<Rightarrow> u8 list \<Rightarrow> state \<Rightarrow> state" where
  "conn_failed index len param s =
     (if unat len \<noteq> sizeof_mgmt_ev_connect_failed then
        fprintf_stderr ''Invalid connect_failed event length (%u bytes)\<newline>'' [U (unat len)] s
      else if monitor s then
        printf ''hci%u %s type %s connect failed (status 0x%02x, %s)\<newline>''
          [U (unat index), Ba2str (bdaddr (get_addr param 0)),
           S (typestr (type (get_addr param 0))), U (unat (get_u8 param 7)),
           Errstr (get_u8 param 7)] s
      else s)"

definition auth_failed :: "u16 \<Rightarrow> u16 \<Rightarrow> u8 list \<Rightarrow> state \<Rightarrow> state" where
  "auth_failed index len param s =
     (if unat len \<noteq> sizeof_mgmt_ev_auth_failed then
        fprintf_stderr ''Invalid auth_failed event length (%u bytes)\<newline>'' [U (unat len)] s
      else if monitor s then
        printf ''hci%u %s auth failed with status 0x%02x (%s)\<newline>''
          [U (unat index), Ba2str (bdaddr (get_addr param 0)), U (unat (get_u8 param 7)),
           Errstr (get_u8 param 7)] s
      else s)"

definition local_name_changed :: "u16 \<Rightarrow> u16 \<Rightarrow> u8 list \<Rightarrow> state \<Rightarrow> state" where
  "local_name_changed index len param s =
     (if unat len \<noteq> sizeof_mgmt_ev_local_name_changed then
        fprintf_stderr ''Invalid local_name_changed length (%u bytes)\<newline>'' [U (unat len)] s
      else if monitor s then
        printf ''hci%u name changed: %s\<newline>'' [U (unat index), B (get_bytes param 0 249)] s
      else s)"

subsection \<open>Discovery\<close>

definition discovering :: "u16 \<Rightarrow> u16 \<Rightarrow> u8 list \<Rightarrow> state \<Rightarrow> state" where
  "discovering index len param s =
     (if unat len < sizeof_mgmt_ev_discovering then
        fprintf_stderr ''Too short (%u bytes) discovering event\<newline>'' [U (unat len)] s
      else
        (let s1 = (if get_u8 param 1 = 0 \<and> discovery s then g_main_loop_quit s else s)
         in if monitor s1 then
              printf ''hci%u type %u discovering %s\<newline>''
                [U (unat index), U (unat (get_u8 param 0)),
                 S (if get_u8 param 1 \<noteq> 0 then ''on'' else ''off'')] s1
            else s1))"

definition confirm_name_rsp :: "u8 \<Rightarrow> u16 \<Rightarrow> u8 list \<Rightarrow> state \<Rightarrow> state" where
  "confirm_name_rsp status len param s =
     (if len = 0 \<and> status \<noteq> 0 then
        fprintf_stderr ''confirm_name failed with status 0x%02x (%s)\<newline>''
          [U (unat status), Errstr status] s
      else if unat len \<noteq> sizeof_mgmt_rp_confirm_name then
        fprintf_stderr ''confirm_name rsp length %u instead of %zu\<newline>''
          [U (unat len), U sizeof_mgmt_rp_confirm_name] s
      else if status \<noteq> 0 then
        fprintf_stderr ''confirm_name for %s failed: 0x%02x (%s)\<newline>''
          [Ba2str (bdaddr (get_addr param 0)), U (unat status), Errstr status] s
      else
        printf ''confirm_name succeeded for %s\<newline>'' [Ba2str (bdaddr (get_addr param 0))] s)"

text \<open>
  \<^verbatim>\<open>eir_parse\<close> of \<^verbatim>\<open>eir.c\<close> is not among the sources; \<open>device_found\<close> takes
  it as a parameter that maps the EIR bytes and their length to the parsed name, if any.
\<close>

definition device_found ::
  "(u8 list \<Rightarrow> u16 \<Rightarrow> string option) \<Rightarrow> u16 \<Rightarrow> u16 \<Rightarrow> u8 list \<Rightarrow> state \<Rightarrow> state" where
  "device_found eir_parse index len param s =
     (if unat len < sizeof_mgmt_ev_device_found then
        fprintf_stderr ''Too short device_found length (%u bytes)\<newline>'' [U (unat len)] s
      else
        (let flags = bt_get_le32 param 8;
             eir_len = bt_get_le16 param 12
         in if unat len \<noteq> sizeof_mgmt_ev_device_found + unat eir_len then
              fprintf_stderr ''dev_found: expected %zu bytes, got %u bytes\<newline>''
                [U (sizeof_mgmt_ev_device_found + unat eir_len), U (unat len)] s
            else
              (let eir_name = eir_parse (drop sizeof_mgmt_ev_device_found param) eir_len;
                   s1 = (if monitor s \<or> discovery s then
                           (let s' = printf ''hci%u dev_found: %s type %s rssi %d flags 0x%04x ''
                                       [U (unat index), Ba2str (bdaddr (get_addr param 0)),
                                        S (typestr (type (get_addr param 0))),
                                        D (sint (get_u8 param 7)), U (unat flags)] s
                            in case eir_name of
                                 Some name \<Rightarrow> printf ''name %s\<newline>'' [S name] s'
                               | None \<Rightarrow> printf ''eir_len %u\<newline>'' [U (unat eir_len)] s')
                         else s)
               in if discovery s1 \<and> flags AND MGMT_DEV_FOUND_CONFIRM_NAME \<noteq> 0 then
                    (let cp = Cp_confirm_name (get_addr param 0)
                                (if resolve_names s1 then 0 else 1);
                         (n, m) = mgmt_reply
                                    \<lparr>req_opcode = MGMT_OP_CONFIRM_NAME, req_index = index,
                                     req_length = of_nat sizeof_mgmt_cp_confirm_name,
                                     req_param = cp, req_callback = Confirm_name_rsp\<rparr>
                                    (mgmt s1)
                     in s1\<lparr>mgmt := m\<rparr>)
                  else s1)))"

definition find_rsp :: "u8 \<Rightarrow> u16 \<Rightarrow> u8 list \<Rightarrow> state \<Rightarrow> state" where
  "find_rsp status len param s =
     (if status \<noteq> 0 then
        g_main_loop_quit
          (fprintf_stderr ''Unable to start discovery. status 0x%02x (%s)\<newline>''
             [U (unat status), Errstr status] s)
      else
        (printf ''Discovery started\<newline>'' [] s)\<lparr>discovery := True\<rparr>)"

subsection \<open>Operator input\<close>

text \<open>
  \<^verbatim>\<open>fgets(buf, n, stdin)\<close>: reads at most \<open>n - 1\<close> characters, stops after a
  newline, and stores them with a terminating NUL; at end of input with nothing read it returns
  \<^verbatim>\<open>NULL\<close> and leaves the buffer as it was.
\<close>

fun fgets_chars :: "nat \<Rightarrow> string \<Rightarrow> string \<times> string" where
  "fgets_chars 0 inp = ([], inp)"
| "fgets_chars (Suc k) [] = ([], [])"
| "fgets_chars (Suc k) (c # inp) =
     (if c = CHR ''\<newline>'' then ([c], inp)
      else (let (r, rest) = fgets_chars k inp in (c # r, rest)))"

definition fgets :: "string \<Rightarrow> nat \<Rightarrow> string \<Rightarrow> string option \<times> string" where
  "fgets buf n inp =
     (if n = 0 then (None, inp)
      else if n = 1 then (Some (CHR 0x00 # drop 1 buf), inp)
      else if inp = [] then (None, inp)
      else (let (r, rest) = fgets_chars (n - 1) inp
            in (Some (r @ [CHR 0x00] @ drop (length r + 1) buf), rest)))"

definition strlen :: "string \<Rightarrow> nat" where
  "strlen buf = length (takeWhile (\<lambda>c. c \<noteq> CHR 0x00) buf)"

subsection \<open>PIN requests\<close>

definition pin_rsp :: "u8 \<Rightarrow> u16 \<Rightarrow> u8 list \<Rightarrow> state \<Rightarrow> state" where
  "pin_rsp status len param s =
     (if status \<noteq> 0 then
        g_main_loop_quit
          (fprintf_stderr ''PIN Code reply failed with status 0x%02x (%s)\<newline>''
             [U (unat status), Errstr status] s)
      else printf ''PIN Reply successful\<newline>'' [] s)"

text \<open>
  \<^verbatim>\<open>memcpy(cp.pin_code, pin, len)\<close> writes \<open>len\<close> bytes into the sixteen of
  \<^verbatim>\<open>cp.pin_code\<close>, the last field of the local \<^verbatim>\<open>cp\<close>.
\<close>

definition mgmt_pin_reply ::
  "mgmt \<Rightarrow> u16 \<Rightarrow> mgmt_addr_info \<Rightarrow> string \<Rightarrow> nat \<Rightarrow> fault + (u32 \<times> mgmt)" where
  "mgmt_pin_reply m index addr pin len =
     (if sizeof_pin_code < len then Inl (Write_past_pin_code len)
      else if length pin < len then Inl Read_outside_buffer
      else Inr (mgmt_reply
                  \<lparr>req_opcode = MGMT_OP_PIN_CODE_REPLY, req_index = index,
                   req_length = of_nat sizeof_mgmt_cp_pin_code_reply,
                   req_param = Cp_pin_code_reply addr (of_nat len)
                                 (take len pin @ replicate (sizeof_pin_code - len) (CHR 0x00)),
                   req_callback = Pin_rsp\<rparr> m))"

definition pin_neg_rsp :: "u8 \<Rightarrow> u16 \<Rightarrow> u8 list \<Rightarrow> state \<Rightarrow> state" where
  "pin_neg_rsp status len param s =
     (if status \<noteq> 0 then
        g_main_loop_quit
          (fprintf_stderr ''PIN Neg reply failed with status 0x%02x (%s)\<newline>''
             [U (unat status), Errstr status] s)
      else printf ''PIN Negative Reply successful\<newline>'' [] s)"

definition mgmt_pin_neg_reply :: "mgmt \<Rightarrow> u16 \<Rightarrow> mgmt_addr_info \<Rightarrow> u32 \<times> mgmt" where
  "mgmt_pin_neg_reply m index addr =
     mgmt_reply
       \<lparr>req_opcode = MGMT_OP_PIN_CODE_NEG_REPLY, req_index = index,
        req_length = of_nat sizeof_mgmt_cp_pin_code_neg_reply,
        req_param = Cp_pin_code_neg_reply addr, req_callback = Pin_neg_rsp\<rparr> m"

definition request_pin :: "u16 \<Rightarrow> u16 \<Rightarrow> u8 list \<Rightarrow> state \<Rightarrow> fault + state" where
  "request_pin index len param s =
     (if unat len \<noteq> sizeof_mgmt_ev_pin_code_request then
        Inr (fprintf_stderr ''Invalid pin_code request length (%u bytes)\<newline>''
               [U (unat len)] s)
      else
        (let s1 = (if monitor s then
                     printf ''hci%u %s request PIN\<newline>''
                       [U (unat index), Ba2str (bdaddr (get_addr param 0))] s
                   else s);
             s2 = printf ''PIN Request (press enter to reject) >> '' [] s1;
             (r, rest) = fgets (replicate 18 (CHR 0x00)) 18 (stdin s2);
             s3 = s2\<lparr>stdin := rest\<rparr>
         in case r of
              None \<Rightarrow> Inr (s3\<lparr>mgmt := snd (mgmt_pin_neg_reply (mgmt s3) index (get_addr param 0))\<rparr>)
            | Some pin \<Rightarrow>
                if pin ! 0 = CHR ''\<newline>'' then
                  Inr (s3\<lparr>mgmt := snd (mgmt_pin_neg_reply (mgmt s3) index (get_addr param 0))\<rparr>)
                else
                  (let pin_len = strlen pin
                   in if pin_len = 0 then Inl Read_outside_buffer
                      else
                        (let (pin', pin_len') =
                               (if pin ! (pin_len - 1) = CHR ''\<newline>''
                                then (pin[pin_len - 1 := CHR 0x00], pin_len - 1)
                                else (pin, pin_len))
                         in case mgmt_pin_reply (mgmt s3) index (get_addr param 0) pin' pin_len' of
                              Inl f \<Rightarrow> Inl f
                            | Inr (n, m) \<Rightarrow> Inr (s3\<lparr>mgmt := m\<rparr>)))))"

subsection \<open>User confirmation requests\<close>

definition confirm_rsp :: "u8 \<Rightarrow> u16 \<Rightarrow> u8 list \<Rightarrow> state \<Rightarrow> state" where
  "confirm_rsp status len param s =
     (if status \<noteq> 0 then
        g_main_loop_quit
          (fprintf_stderr ''User Confirm reply failed. status 0x%02x (%s)\<newline>''
             [U (unat status), Errstr status] s)
      else printf ''User Confirm Reply successful\<newline>'' [] s)"

text \<open>\<^verbatim>\<open>bacpy\<close> copies the six address bytes; the type byte keeps the 0 of the \<^verbatim>\<open>memset\<close>.\<close>

definition mgmt_confirm_reply :: "mgmt \<Rightarrow> u16 \<Rightarrow> u8 list \<Rightarrow> u32 \<times> mgmt" where
  "mgmt_confirm_reply m index bdaddr' =
     mgmt_reply
       \<lparr>req_opcode = MGMT_OP_USER_CONFIRM_REPLY, req_index = index,
        req_length = of_nat sizeof_mgmt_cp_user_confirm_reply,
        req_param = Cp_user_confirm_reply \<lparr>bdaddr = bdaddr', type = 0\<rparr>,
        req_callback = Confirm_rsp\<rparr> m"

definition confirm_neg_rsp :: "u8 \<Rightarrow> u16 \<Rightarrow> u8 list \<Rightarrow> state \<Rightarrow> state" where
  "confirm_neg_rsp status len param s =
     (if status \<noteq> 0 then
        g_main_loop_quit
          (fprintf_stderr ''Confirm Neg reply failed. status 0x%02x (%s)\<newline>''
             [U (unat status), Errstr status] s)
      else printf ''User Confirm Negative Reply successful\<newline>'' [] s)"

definition mgmt_confirm_neg_reply :: "mgmt \<Rightarrow> u16 \<Rightarrow> u8 list \<Rightarrow> u32 \<times> mgmt" where
  "mgmt_confirm_neg_reply m index bdaddr' =
     mgmt_reply
       \<lparr>req_opcode = MGMT_OP_USER_CONFIRM_NEG_REPLY, req_index = index,
        req_length = of_nat sizeof_mgmt_cp_user_confirm_reply,
        req_param = Cp_user_confirm_reply \<lparr>bdaddr = bdaddr', type = 0\<rparr>,
        req_callback = Confirm_neg_rsp\<rparr> m"

definition user_confirm :: "u16 \<Rightarrow> u16 \<Rightarrow> u8 list \<Rightarrow> state \<Rightarrow> fault + state" where
  "user_confirm index len param s =
     (if unat len \<noteq> sizeof_mgmt_ev_user_confirm_request then
        Inr (fprintf_stderr ''Invalid user_confirm request length (%u)\<newline>'' [U (unat len)] s)
      else
        (let addr = Ba2str (bdaddr (get_addr param 0));
             val = bt_get_le32 param 8;
             s1 = (if monitor s then
                     printf ''hci%u %s User Confirm %06u hint %u\<newline>''
                       [U (unat index), addr, U (unat val), U (unat (get_u8 param 7))] s
                   else s);
             s2 = (if get_u8 param 7 \<noteq> 0 then
                     printf ''Accept pairing with %s (yes/no) >> '' [addr] s1
                   else printf ''Confirm value %06u for %s (yes/no) >> '' [U (unat val), addr] s1);
             (r, rest) = fgets (replicate 5 (CHR 0x00)) 5 (stdin s2);
             s3 = s2\<lparr>stdin := rest\<rparr>
         in case r of
              None \<Rightarrow>
                Inr (s3\<lparr>mgmt := snd (mgmt_confirm_neg_reply (mgmt s3) index
                                         (bdaddr (get_addr param 0)))\<rparr>)
            | Some rsp \<Rightarrow>
                if rsp ! 0 = CHR ''\<newline>'' then
                  Inr (s3\<lparr>mgmt := snd (mgmt_confirm_neg_reply (mgmt s3) index
                                           (bdaddr (get_addr param 0)))\<rparr>)
                else
                  (let rsp_len = strlen rsp
                   in if rsp_len = 0 then Inl Read_outside_buffer
                      else
                        (let rsp' = (if rsp ! (rsp_len - 1) = CHR ''\<newline>''
                                     then rsp[rsp_len - 1 := CHR 0x00] else rsp)
                         in if rsp' ! 0 = CHR ''y'' \<or> rsp' ! 0 = CHR ''Y'' then
                              Inr (s3\<lparr>mgmt := snd (mgmt_confirm_reply (mgmt s3) index
                                                       (bdaddr (get_addr param 0)))\<rparr>)
                            else
                              Inr (s3\<lparr>mgmt := snd (mgmt_confirm_neg_reply (mgmt s3) index
                                                       (bdaddr (get_addr param 0)))\<rparr>)))))"

subsection \<open>Commands\<close>

definition version_rsp :: "u8 \<Rightarrow> u16 \<Rightarrow> u8 list \<Rightarrow> state \<Rightarrow> state" where
  "version_rsp status len param s =
     (if status \<noteq> 0 then
        g_main_loop_quit
          (fprintf_stderr ''Reading mgmt version failed with status 0x%02x (%s)\<newline>''
             [U (unat status), Errstr status] s)
      else if unat len < sizeof_mgmt_rp_read_version then
        g_main_loop_quit
          (fprintf_stderr ''Too small version reply (%u bytes)\<newline>'' [U (unat len)] s)
      else
        g_main_loop_quit
          (printf ''MGMT Version %u, revision %u\<newline>''
             [U (unat (get_u8 param 0)), U (unat (bt_get_le16 param 1))] s))"

definition commands_rsp :: "u8 \<Rightarrow> u16 \<Rightarrow> u8 list \<Rightarrow> state \<Rightarrow> state" where
  "commands_rsp status len param s =
     (if status \<noteq> 0 then
        g_main_loop_quit
          (fprintf_stderr ''Reading supported commands failed with status 0x%02x (%s)\<newline>''
             [U (unat status), Errstr status] s)
      else if unat len < sizeof_mgmt_rp_read_commands then
        g_main_loop_quit
          (fprintf_stderr ''Too small commands reply (%u bytes)\<newline>'' [U (unat len)] s)
      else
        (let num_commands = unat (bt_get_le16 param 0);
             num_events = unat (bt_get_le16 param 2);
             expected_len = sizeof_mgmt_rp_read_commands + num_commands * sizeof_uint16_t +
                            num_events * sizeof_uint16_t
         in if unat len < expected_len then
              g_main_loop_quit
                (fprintf_stderr ''Too small commands reply (%u != %zu)\<newline>''
                   [U (unat len), U expected_len] s)
            else
              (let s1 = printf ''%u commands:\<newline>'' [U num_commands] s;
                   s2 = printf_each
                          (map (\<lambda>i. (CHR 0x09 # ''%s (0x%04x)\<newline>'',
                                     [Opstr (bt_get_le16 param (4 + 2 * i)),
                                      U (unat (bt_get_le16 param (4 + 2 * i)))]))
                             [0..<num_commands]) s1;
                   s3 = printf ''%u events:\<newline>'' [U num_events] s2;
                   s4 = printf_each
                          (map (\<lambda>i. (CHR 0x09 # ''%s (0x%04x)\<newline>'',
                                     [Evstr (bt_get_le16 param (4 + 2 * (num_commands + i))),
                                      U (unat (bt_get_le16 param (4 + 2 * (num_commands + i))))]))
                             [0..<num_events]) s3
               in g_main_loop_quit s4)))"

definition info_rsp :: "u8 \<Rightarrow> u16 \<Rightarrow> u8 list \<Rightarrow> int \<Rightarrow> state \<Rightarrow> state" where
  "info_rsp status len param user_data s =
     (let s0 = s\<lparr>pending := pending s - 1\<rparr>
      in if status \<noteq> 0 then
           g_main_loop_quit
             (fprintf_stderr ''Reading hci%u info failed with status 0x%02x (%s)\<newline>''
                [D user_data, U (unat status), Errstr status] s0)
         else if unat len < sizeof_mgmt_rp_read_info then
           g_main_loop_quit
             (fprintf_stderr ''Too small info reply (%u bytes)\<newline>'' [U (unat len)] s0)
         else
           (let s1 = printf (''hci%u:'' @ [CHR 0x09] @
                             ''addr %s version %u manufacturer %u class 0x%02x%02x%02x\<newline>'')
                       [D user_data, Ba2str (get_bytes param 0 6), U (unat (get_u8 param 6)),
                        U (unat (bt_get_le16 param 7)), U (unat (get_u8 param 19)),
                        U (unat (get_u8 param 18)), U (unat (get_u8 param 17))] s0;
                s2 = printf (CHR 0x09 # ''supported settings: '') [] s1;
                s3 = print_settings (bt_get_le32 param 9) s2;
                s4 = printf (CHR ''\<newline>'' # CHR 0x09 # ''current settings: '') [] s3;
                s5 = print_settings (bt_get_le32 param 13) s4;
                s6 = printf (CHR ''\<newline>'' # CHR 0x09 # ''name %s\<newline>'')
                       [B (get_bytes param 20 249)] s5;
                s7 = printf (CHR 0x09 # ''short name %s\<newline>'') [B (get_bytes param 269 11)] s6
            in if pending s7 > 0 then s7 else g_main_loop_quit s7))"

text \<open>
  The loop of \<^verbatim>\<open>index_rsp\<close> over the controller indices of the reply: it submits one
  read-info request for each and counts it in \<open>pending\<close>; the result says whether it
  ran to its end, or left at a refused submission.
\<close>

fun index_rsp_loop :: "u8 list \<Rightarrow> nat list \<Rightarrow> state \<Rightarrow> state \<times> bool" where
  "index_rsp_loop param [] s = (s, True)"
| "index_rsp_loop param (i # is) s =
     (let index = bt_get_le16 param (sizeof_mgmt_rp_read_index_list + sizeof_uint16_t * i);
          s1 = (if monitor s then printf ''hci%u '' [U (unat index)] s else s);
          (n, m) = mgmt_send
                     \<lparr>req_opcode = MGMT_OP_READ_INFO, req_index = index, req_length = 0,
                      req_param = Cp_bytes [], req_callback = Info_rsp (uint index)\<rparr>
                     (mgmt s1)
      in if n = 0 then
           (fprintf_stderr ''Unable to send read_info cmd\<newline>'' [] (s1\<lparr>mgmt := m\<rparr>), False)
         else index_rsp_loop param is (s1\<lparr>mgmt := m, pending := pending s1 + 1\<rparr>))"

definition index_rsp :: "u8 \<Rightarrow> u16 \<Rightarrow> u8 list \<Rightarrow> state \<Rightarrow> state" where
  "index_rsp status len param s =
     (if status \<noteq> 0 then
        g_main_loop_quit
          (fprintf_stderr ''Reading index list failed with status 0x%02x (%s)\<newline>''
             [U (unat status), Errstr status] s)
      else if unat len < sizeof_mgmt_rp_read_index_list then
        g_main_loop_quit
          (fprintf_stderr ''Too small index list reply (%u bytes)\<newline>'' [U (unat len)] s)
      else
        (let count = unat (bt_get_le16 param 0)
         in if unat len < sizeof_mgmt_rp_read_index_list + count * sizeof_uint16_t then
              g_main_loop_quit
                (fprintf_stderr ''Index count (%u) doesn't match reply length (%u)\<newline>''
                   [U count, U (unat len)] s)
            else
              (let s1 = (if monitor s then
                           printf ''Index list with %u item%s\<newline>''
                             [U count, S (if count > 1 then ''s'' else [])] s
                         else s)
               in if count = 0 then g_main_loop_quit s1
                  else
                    (let s2 = (if monitor s1 \<and> count > 0 then printf [CHR 0x09] [] s1 else s1);
                         (s3, sent) = index_rsp_loop param [0..<count] s2
                     in if \<not> sent then g_main_loop_quit s3
                        else if monitor s3 \<and> count > 0 then printf ''\<newline>'' [] s3
                        else s3))))"

definition setting_rsp :: "u16 \<Rightarrow> u16 \<Rightarrow> u8 \<Rightarrow> u16 \<Rightarrow> u8 list \<Rightarrow> state \<Rightarrow> state" where
  "setting_rsp op id' status len param s =
     (if status \<noteq> 0 then
        g_main_loop_quit
          (fprintf_stderr ''%s for hci%u failed with status 0x%02x (%s)\<newline>''
             [Opstr op, U (unat id'), U (unat status), Errstr status] s)
      else if unat len < sizeof_uint32_t then
        g_main_loop_quit
          (fprintf_stderr ''Too small %s response (%u bytes)\<newline>'' [Opstr op, U (unat len)] s)
      else
        g_main_loop_quit
          (printf ''\<newline>'' []
            (print_settings (bt_get_le32 param 0)
              (printf ''hci%u %s complete, settings: '' [U (unat id'), Opstr op] s))))"

definition class_rsp :: "u16 \<Rightarrow> u16 \<Rightarrow> u8 \<Rightarrow> u16 \<Rightarrow> u8 list \<Rightarrow> state \<Rightarrow> state" where
  "class_rsp op id' status len param s =
     (if len = 0 \<and> status \<noteq> 0 then
        g_main_loop_quit
          (fprintf_stderr ''%s failed, status 0x%02x (%s)\<newline>''
             [Opstr op, U (unat status), Errstr status] s)
      else if unat len \<noteq> sizeof_mgmt_ev_class_of_dev_changed then
        g_main_loop_quit
          (fprintf_stderr ''Unexpected %s len %u\<newline>'' [Opstr op, U (unat len)] s)
      else
        g_main_loop_quit
          (printf ''%s succeeded. Class 0x%02x%02x%02x\<newline>''
             [Opstr op, U (unat (get_u8 param 2)), U (unat (get_u8 param 1)),
              U (unat (get_u8 param 0))] s))"

definition block_rsp :: "u16 \<Rightarrow> u16 \<Rightarrow> u8 \<Rightarrow> u16 \<Rightarrow> u8 list \<Rightarrow> state \<Rightarrow> state" where
  "block_rsp op id' status len param s =
     (if len = 0 \<and> status \<noteq> 0 then
        g_main_loop_quit
          (fprintf_stderr ''%s failed, status 0x%02x (%s)\<newline>''
             [Opstr op, U (unat status), Errstr status] s)
      else if unat len \<noteq> sizeof_mgmt_addr_info then
        g_main_loop_quit
          (fprintf_stderr ''Unexpected %s len %u\<newline>'' [Opstr op, U (unat len)] s)
      else if status \<noteq> 0 then
        g_main_loop_quit
          (fprintf_stderr ''%s %s (%s) failed. status 0x%02x (%s)\<newline>''
             [Opstr op, Ba2str (bdaddr (get_addr param 0)),
              S (typestr (type (get_addr param 0))), U (unat status), Errstr status] s)
      else
        g_main_loop_quit
          (printf ''%s %s succeeded\<newline>''
             [Opstr op, Ba2str (bdaddr (get_addr param 0))] s))"

text \<open>\<^verbatim>\<open>data->callback(data->op, data->id, status, len, param)\<close>\<close>

definition cmd_rsp :: "u8 \<Rightarrow> u16 \<Rightarrow> u8 list \<Rightarrow> command_data \<Rightarrow> state \<Rightarrow> state" where
  "cmd_rsp status len param data s =
     (case data_callback data of
        Setting_rsp \<Rightarrow> setting_rsp (data_op data) (data_id data) status len param s
      | Class_rsp \<Rightarrow> class_rsp (data_op data) (data_id data) status len param s
      | Block_rsp \<Rightarrow> block_rsp (data_op data) (data_id data) status len param s)"

text \<open>
  \<^verbatim>\<open>send_cmd\<close> allocates the \<^verbatim>\<open>command_data\<close>, submits the request with
  \<^verbatim>\<open>cmd_rsp\<close> as its callback, frees the data if \<^verbatim>\<open>send_id == 0\<close>, and ends
  with \<^verbatim>\<open>return id;\<close>: the \<^verbatim>\<open>uint16_t\<close> controller index converted to
  \<^verbatim>\<open>unsigned int\<close>.
\<close>

definition send_cmd ::
  "mgmt \<Rightarrow> u16 \<Rightarrow> u16 \<Rightarrow> u16 \<Rightarrow> cmd_param \<Rightarrow> cmd_callback \<Rightarrow> u32 \<times> mgmt" where
  "send_cmd m op id' len param cb =
     (let data = Command_data id' op cb;
          (send_id, m') = mgmt_send
                            \<lparr>req_opcode = op, req_index = id', req_length = len,
                             req_param = param, req_callback = Cmd_rsp data\<rparr> m
      in (ucast id', m'))"

definition disconnect_rsp :: "u8 \<Rightarrow> u16 \<Rightarrow> u8 list \<Rightarrow> state \<Rightarrow> state" where
  "disconnect_rsp status len param s =
     (if len = 0 \<and> status \<noteq> 0 then
        g_main_loop_quit
          (fprintf_stderr ''Disconnect failed with status 0x%02x (%s)\<newline>''
             [U (unat status), Errstr status] s)
      else if unat len \<noteq> sizeof_mgmt_rp_disconnect then
        g_main_loop_quit
          (fprintf_stderr ''Invalid disconnect response length (%u)\<newline>'' [U (unat len)] s)
      else if status = 0 then
        g_main_loop_quit
          (printf ''%s disconnected\<newline>'' [Ba2str (bdaddr (get_addr param 0))] s)
      else
        g_main_loop_quit
          (fprintf_stderr ''Disconnecting %s failed with status 0x%02x (%s)\<newline>''
             [Ba2str (bdaddr (get_addr param 0)), U (unat status), Errstr status] s))"

text \<open>\<^verbatim>\<open>con_rsp\<close> does not read its \<^verbatim>\<open>status\<close> argument.\<close>

definition con_rsp :: "u8 \<Rightarrow> u16 \<Rightarrow> u8 list \<Rightarrow> state \<Rightarrow> state" where
  "con_rsp status len param s =
     (if unat len < sizeof_mgmt_rp_get_connections then
        g_main_loop_quit
          (fprintf_stderr ''Too small (%u bytes) get_connections rsp\<newline>'' [U (unat len)] s)
      else
        (let count = unat (bt_get_le16 param 0)
         in if unat len \<noteq> sizeof_mgmt_rp_get_connections + count * sizeof_mgmt_addr_info then
              g_main_loop_quit
                (fprintf_stderr ''Invalid get_connections length  (count=%u, len=%u)\<newline>''
                   [U count, U (unat len)] s)
            else
              g_main_loop_quit
                (printf_each
                   (map (\<lambda>i. (''%s type %s\<newline>'',
                              [Ba2str (bdaddr (get_addr param (2 + 7 * i))),
                               S (typestr (type (get_addr param (2 + 7 * i))))]))
                      [0..<count]) s)))"

definition name_rsp :: "u8 \<Rightarrow> u16 \<Rightarrow> u8 list \<Rightarrow> state \<Rightarrow> state" where
  "name_rsp status len param s =
     g_main_loop_quit
       (if status \<noteq> 0 then
          fprintf_stderr ''Unable to set local name with status 0x%02x (%s)\<newline>''
            [U (unat status), Errstr status] s
        else s)"

definition pair_rsp :: "u8 \<Rightarrow> u16 \<Rightarrow> u8 list \<Rightarrow> state \<Rightarrow> state" where
  "pair_rsp status len param s =
     (if len = 0 \<and> status \<noteq> 0 then
        g_main_loop_quit
          (fprintf_stderr ''Pairing failed with status 0x%02x (%s)\<newline>''
             [U (unat status), Errstr status] s)
      else if unat len \<noteq> sizeof_mgmt_rp_pair_device then
        g_main_loop_quit
          (fprintf_stderr ''Unexpected pair_rsp len %u\<newline>'' [U (unat len)] s)
      else if status \<noteq> 0 then
        g_main_loop_quit
          (fprintf_stderr ''Pairing with %s (%s) failed. status 0x%02x (%s)\<newline>''
             [Ba2str (bdaddr (get_addr param 0)), S (typestr (type (get_addr param 0))),
              U (unat status), Errstr status] s)
      else
        g_main_loop_quit
          (printf ''Paired with %s\<newline>'' [Ba2str (bdaddr (get_addr param 0))] s))"

definition cancel_pair_rsp :: "u8 \<Rightarrow> u16 \<Rightarrow> u8 list \<Rightarrow> state \<Rightarrow> state" where
  "cancel_pair_rsp status len param s =
     (if len = 0 \<and> status \<noteq> 0 then
        g_main_loop_quit
          (fprintf_stderr ''Cancel Pairing failed with 0x%02x (%s)\<newline>''
             [U (unat status), Errstr status] s)
      else if unat len \<noteq> sizeof_mgmt_addr_info then
        g_main_loop_quit
          (fprintf_stderr ''Unexpected cancel_pair_rsp len %u\<newline>'' [U (unat len)] s)
      else if status \<noteq> 0 then
        g_main_loop_quit
          (fprintf_stderr ''Cancel Pairing with %s (%s) failed. 0x%02x (%s)\<newline>''
             [Ba2str (bdaddr (get_addr param 0)), S (typestr (type (get_addr param 0))),
              U (unat status), Errstr status] s)
      else
        g_main_loop_quit
          (printf ''Pairing Cancelled with %s\<newline>'' [Ba2str (bdaddr (get_addr param 0))] s))"

definition unpair_rsp :: "u8 \<Rightarrow> u16 \<Rightarrow> u8 list \<Rightarrow> state \<Rightarrow> state" where
  "unpair_rsp status len param s =
     (if len = 0 \<and> status \<noteq> 0 then
        g_main_loop_quit
          (fprintf_stderr ''Unpair device failed. status 0x%02x (%s)\<newline>''
             [U (unat status), Errstr status] s)
      else if unat len \<noteq> sizeof_mgmt_rp_unpair_device then
        g_main_loop_quit
          (fprintf_stderr ''Unexpected unpair_device_rsp len %u\<newline>'' [U (unat len)] s)
      else if status \<noteq> 0 then
        g_main_loop_quit
          (fprintf_stderr ''Unpairing %s failed. status 0x%02x (%s)\<newline>''
             [Ba2str (bdaddr (get_addr param 0)), U (unat status), Errstr status] s)
      else
        g_main_loop_quit
          (printf ''%s unpaired\<newline>'' [Ba2str (bdaddr (get_addr param 0))] s))"

definition keys_rsp :: "u8 \<Rightarrow> u16 \<Rightarrow> u8 list \<Rightarrow> state \<Rightarrow> state" where
  "keys_rsp status len param s =
     g_main_loop_quit
       (if status \<noteq> 0 then
          fprintf_stderr ''Load keys failed with status 0x%02x (%s)\<newline>''
            [U (unat status), Errstr status] s
        else printf ''Keys successfully loaded\<newline>'' [] s)"

definition did_rsp :: "u8 \<Rightarrow> u16 \<Rightarrow> u8 list \<Rightarrow> state \<Rightarrow> state" where
  "did_rsp status len param s =
     g_main_loop_quit
       (if status \<noteq> 0 then
          fprintf_stderr ''Set Device ID failed with status 0x%02x (%s)\<newline>''
            [U (unat status), Errstr status] s
        else printf ''Device ID successfully set\<newline>'' [] s)"

subsection \<open>The registrations of main and the run loop\<close>

datatype event_code =
    MGMT_EV_CONTROLLER_ERROR
  | MGMT_EV_INDEX_ADDED
  | MGMT_EV_INDEX_REMOVED
  | MGMT_EV_NEW_SETTINGS
  | MGMT_EV_DISCOVERING
  | MGMT_EV_NEW_LINK_KEY
  | MGMT_EV_DEVICE_CONNECTED
  | MGMT_EV_DEVICE_DISCONNECTED
  | MGMT_EV_CONNECT_FAILED
  | MGMT_EV_AUTH_FAILED
  | MGMT_EV_LOCAL_NAME_CHANGED
  | MGMT_EV_DEVICE_FOUND
  | MGMT_EV_PIN_CODE_REQUEST
  | MGMT_EV_USER_CONFIRM_REQUEST

text \<open>The handler that \<^verbatim>\<open>main\<close> registers for each event code.\<close>

definition notify ::
  "(u8 list \<Rightarrow> u16 \<Rightarrow> string option) \<Rightarrow> event_code \<Rightarrow> u16 \<Rightarrow> u16 \<Rightarrow> u8 list \<Rightarrow> state
     \<Rightarrow> fault + state" where
  "notify eir_parse ev index len param s =
     (case ev of
        MGMT_EV_CONTROLLER_ERROR \<Rightarrow> Inr (controller_error index len param s)
      | MGMT_EV_INDEX_ADDED \<Rightarrow> Inr (index_added index len param s)
      | MGMT_EV_INDEX_REMOVED \<Rightarrow> Inr (index_removed index len param s)
      | MGMT_EV_NEW_SETTINGS \<Rightarrow> Inr (new_settings index len param s)
      | MGMT_EV_DISCOVERING \<Rightarrow> Inr (discovering index len param s)
      | MGMT_EV_NEW_LINK_KEY \<Rightarrow> Inr (new_link_key index len param s)
      | MGMT_EV_DEVICE_CONNECTED \<Rightarrow> Inr (connected index len param s)
      | MGMT_EV_DEVICE_DISCONNECTED \<Rightarrow> Inr (disconnected index len param s)
      | MGMT_EV_CONNECT_FAILED \<Rightarrow> Inr (conn_failed index len param s)
      | MGMT_EV_AUTH_FAILED \<Rightarrow> Inr (auth_failed index len param s)
      | MGMT_EV_LOCAL_NAME_CHANGED \<Rightarrow> Inr (local_name_changed index len param s)
      | MGMT_EV_DEVICE_FOUND \<Rightarrow> Inr (device_found eir_parse index len param s)
      | MGMT_EV_PIN_CODE_REQUEST \<Rightarrow> request_pin index len param s
      | MGMT_EV_USER_CONFIRM_REQUEST \<Rightarrow> user_confirm index len param s)"

text \<open>The call of a response callback with the \<^verbatim>\<open>user_data\<close> it was submitted with.\<close>

definition complete :: "callback \<Rightarrow> u8 \<Rightarrow> u16 \<Rightarrow> u8 list \<Rightarrow> state \<Rightarrow> state" where
  "complete cb status len param s =
     (case cb of
        Confirm_name_rsp \<Rightarrow> confirm_name_rsp status len param s
      | Pin_rsp \<Rightarrow> pin_rsp status len param s
      | Pin_neg_rsp \<Rightarrow> pin_neg_rsp status len param s
      | Confirm_rsp \<Rightarrow> confirm_rsp status len param s
      | Confirm_neg_rsp \<Rightarrow> confirm_neg_rsp status len param s
      | Version_rsp \<Rightarrow> version_rsp status len param s
      | Commands_rsp \<Rightarrow> commands_rsp status len param s
      | Info_rsp user_data \<Rightarrow> info_rsp status len param user_data s
      | Index_rsp \<Rightarrow> index_rsp status len param s
      | Cmd_rsp data \<Rightarrow> cmd_rsp status len param data s
      | Disconnect_rsp \<Rightarrow> disconnect_rsp status len param s
      | Con_rsp \<Rightarrow> con_rsp status len param s
      | Find_rsp \<Rightarrow> find_rsp status len param s
      | Name_rsp \<Rightarrow> name_rsp status len param s
      | Pair_rsp \<Rightarrow> pair_rsp status len param s
      | Cancel_pair_rsp \<Rightarrow> cancel_pair_rsp status len param s
      | Unpair_rsp \<Rightarrow> unpair_rsp status len param s
      | Keys_rsp \<Rightarrow> keys_rsp status len param s
      | Did_rsp \<Rightarrow> did_rsp status len param s)"

text \<open>
  Modelled from the spec: the Multiplexer Loop, that is \<^verbatim>\<open>g_main_loop_run\<close> driving the
  reader of \<^verbatim>\<open>src/shared/mgmt.c\<close>, neither of which is among the sources. It makes the
  calls that the inbound frames cause, one after the other in arrival order: an event frame
  calls the handler registered for its code, a response frame calls the callback of its
  pending call. The loop ends when a call has quit it, or when no frame is left.
\<close>

datatype call =
    Event event_code u16 u16 "u8 list"
  | Response callback u8 u16 "u8 list"

fun dispatch :: "(u8 list \<Rightarrow> u16 \<Rightarrow> string option) \<Rightarrow> call \<Rightarrow> state \<Rightarrow> fault + state" where
  "dispatch eir_parse (Event ev index len param) s = notify eir_parse ev index len param s"
| "dispatch eir_parse (Response cb status len param) s = Inr (complete cb status len param s)"

fun iterate :: "(u8 list \<Rightarrow> u16 \<Rightarrow> string option) \<Rightarrow> call list \<Rightarrow> state \<Rightarrow> fault + state" where
  "iterate eir_parse [] s = Inr s"
| "iterate eir_parse (c # cs) s =
     (case dispatch eir_parse c s of
        Inl f \<Rightarrow> Inl f
      | Inr s' \<Rightarrow> if is_running s' then iterate eir_parse cs s' else Inr s')"

definition g_main_loop_run ::
  "(u8 list \<Rightarrow> u16 \<Rightarrow> string option) \<Rightarrow> call list \<Rightarrow> state \<Rightarrow> fault + state" where
  "g_main_loop_run eir_parse cs s = iterate eir_parse cs (s\<lparr>is_running := True\<rparr>)"

subsection \<open>Notions used in the statements\<close>

text \<open>The requests accepted so far, in the order of their submission.\<close>

definition requests :: "state \<Rightarrow> request list" where
  "requests s = map snd (pending_calls (mgmt s))"

definition is_confirm_name :: "request \<Rightarrow> bool" where
  "is_confirm_name r = (req_opcode r = MGMT_OP_CONFIRM_NAME)"

text \<open>
  The two tests that \<open>device_found\<close> makes on a payload before it answers: the length
  fits the EIR length the event declares, and the confirm-name flag is set.
\<close>

definition confirm_name_flagged :: "u16 \<Rightarrow> u8 list \<Rightarrow> bool" where
  "confirm_name_flagged len param =
     (unat len = sizeof_mgmt_ev_device_found + unat (bt_get_le16 param 12) \<and>
      bt_get_le32 param 8 AND MGMT_DEV_FOUND_CONFIRM_NAME \<noteq> 0)"

definition confirm_name_request :: "bool \<Rightarrow> u16 \<Rightarrow> u8 list \<Rightarrow> request" where
  "confirm_name_request resolve index param =
     \<lparr>req_opcode = MGMT_OP_CONFIRM_NAME, req_index = index,
      req_length = of_nat sizeof_mgmt_cp_confirm_name,
      req_param = Cp_confirm_name (get_addr param 0) (if resolve then 0 else 1),
      req_callback = Confirm_name_rsp\<rparr>"

definition found :: "u16 \<times> u16 \<times> u8 list \<Rightarrow> call" where
  "found e = (case e of (index, len, param) \<Rightarrow> Event MGMT_EV_DEVICE_FOUND index len param)"

text \<open>
  The responses whose callback does not look at the status: \<open>con_rsp\<close> never reads it,
  and \<open>class_rsp\<close> tests it only together with \<^verbatim>\<open>len == 0\<close>, so not when the
  payload has the length of the reply structure.
\<close>

definition status_unchecked :: "callback \<Rightarrow> u16 \<Rightarrow> bool" where
  "status_unchecked cb len =
     (case cb of
        Con_rsp \<Rightarrow> True
      | Cmd_rsp data \<Rightarrow>
          data_callback data = Class_rsp \<and> unat len = sizeof_mgmt_ev_class_of_dev_changed
      | _ \<Rightarrow> False)"

text \<open>The length below which the handler of an event code rejects the payload as too short.\<close>

definition min_payload :: "event_code \<Rightarrow> nat" where
  "min_payload ev =
     (case ev of
        MGMT_EV_CONTROLLER_ERROR \<Rightarrow> sizeof_mgmt_ev_controller_error
      | MGMT_EV_INDEX_ADDED \<Rightarrow> 0
      | MGMT_EV_INDEX_REMOVED \<Rightarrow> 0
      | MGMT_EV_NEW_SETTINGS \<Rightarrow> sizeof_uint32_t
      | MGMT_EV_DISCOVERING \<Rightarrow> sizeof_mgmt_ev_discovering
      | MGMT_EV_NEW_LINK_KEY \<Rightarrow> sizeof_mgmt_ev_new_link_key
      | MGMT_EV_DEVICE_CONNECTED \<Rightarrow> sizeof_mgmt_ev_device_connected
      | MGMT_EV_DEVICE_DISCONNECTED \<Rightarrow> sizeof_mgmt_addr_info
      | MGMT_EV_CONNECT_FAILED \<Rightarrow> sizeof_mgmt_ev_connect_failed
      | MGMT_EV_AUTH_FAILED \<Rightarrow> sizeof_mgmt_ev_auth_failed
      | MGMT_EV_LOCAL_NAME_CHANGED \<Rightarrow> sizeof_mgmt_ev_local_name_changed
      | MGMT_EV_DEVICE_FOUND \<Rightarrow> sizeof_mgmt_ev_device_found
      | MGMT_EV_PIN_CODE_REQUEST \<Rightarrow> sizeof_mgmt_ev_pin_code_request
      | MGMT_EV_USER_CONFIRM_REQUEST \<Rightarrow> sizeof_mgmt_ev_user_confirm_request)"

text \<open>
  Example data: a transport that accepts writes, the globals as \<^verbatim>\<open>main\<close> leaves them
  before the loop runs, and one payload for each of the three interactive events.
\<close>

definition example_mgmt :: mgmt where
  "example_mgmt = \<lparr>transport_ok = True, next_request_id = 1, pending_calls = []\<rparr>"

definition example_state :: state where
  "example_state =
     \<lparr>is_running = True, monitor = False, discovery = False, resolve_names = True,
      pending = 0, mgmt = example_mgmt, stdin = [], stdout = [], stderr = []\<rparr>"

definition set_powered_request :: "u16 \<Rightarrow> request" where
  "set_powered_request index =
     \<lparr>req_opcode = MGMT_OP_SET_POWERED, req_index = index, req_length = 1,
      req_param = Cp_bytes [1],
      req_callback = Cmd_rsp (Command_data index MGMT_OP_SET_POWERED Setting_rsp)\<rparr>"

text \<open>AA:BB:CC:DD:EE:FF, LE Public, RSSI -60, confirm-name flag set, no EIR data.\<close>

definition example_found :: "u8 list" where
  "example_found =
     [0xFF, 0xEE, 0xDD, 0xCC, 0xBB, 0xAA, 0x01, 0xC4, 0x01, 0x00, 0x00, 0x00, 0x00, 0x00]"

text \<open>The same device with no flag set.\<close>

definition example_found_unflagged :: "u8 list" where
  "example_found_unflagged =
     [0xFF, 0xEE, 0xDD, 0xCC, 0xBB, 0xAA, 0x01, 0xC4, 0x00, 0x00, 0x00, 0x00, 0x00, 0x00]"

text \<open>11:22:33:44:55:66, BR/EDR, not secure.\<close>

definition example_pin_request :: "u8 list" where
  "example_pin_request = [0x66, 0x55, 0x44, 0x33, 0x22, 0x11, 0x00, 0x00]"

text \<open>11:22:33:44:55:66, BR/EDR, confirm hint 0, value 123456.\<close>

definition example_confirm_request :: "u8 list" where
  "example_confirm_request =
     [0x66, 0x55, 0x44, 0x33, 0x22, 0x11, 0x00, 0x00, 0x40, 0xE2, 0x01, 0x00]"

section \<open>Properties\<close>

subsection \<open>Output leaves the session alone\<close>

lemmas sizeof_defs =
  sizeof_mgmt_addr_info_def sizeof_mgmt_ev_controller_error_def sizeof_uint32_t_def
  sizeof_mgmt_ev_discovering_def sizeof_mgmt_ev_new_link_key_def
  sizeof_mgmt_ev_device_connected_def sizeof_mgmt_ev_device_disconnected_def
  sizeof_mgmt_ev_connect_failed_def sizeof_mgmt_ev_auth_failed_def
  sizeof_mgmt_ev_local_name_changed_def sizeof_mgmt_ev_device_found_def
  sizeof_mgmt_ev_pin_code_request_def sizeof_mgmt_ev_user_confirm_request_def
  sizeof_mgmt_ev_class_of_dev_changed_def sizeof_mgmt_rp_confirm_name_def
  sizeof_mgmt_rp_read_info_def sizeof_mgmt_cp_confirm_name_def
  sizeof_mgmt_cp_pin_code_reply_def sizeof_mgmt_cp_pin_code_neg_reply_def
  sizeof_mgmt_cp_user_confirm_reply_def sizeof_pin_code_def sizeof_uint16_t_def
  sizeof_mgmt_rp_read_version_def sizeof_mgmt_rp_read_commands_def
  sizeof_mgmt_rp_read_index_list_def sizeof_mgmt_rp_disconnect_def
  sizeof_mgmt_rp_get_connections_def sizeof_mgmt_rp_pair_device_def
  sizeof_mgmt_rp_unpair_device_def

lemma printf_fields [simp]:
  "is_running (printf f a s) = is_running s"
  "monitor (printf f a s) = monitor s"
  "discovery (printf f a s) = discovery s"
  "resolve_names (printf f a s) = resolve_names s"
  "pending (printf f a s) = pending s"
  "mgmt (printf f a s) = mgmt s"
  "stdin (printf f a s) = stdin s"
  "stderr (printf f a s) = stderr s"
  "stdout (printf f a s) = stdout s @ [(f, a)]"
  by (simp_all add: printf_def)

lemma fprintf_stderr_fields [simp]:
  "is_running (fprintf_stderr f a s) = is_running s"
  "monitor (fprintf_stderr f a s) = monitor s"
  "discovery (fprintf_stderr f a s) = discovery s"
  "resolve_names (fprintf_stderr f a s) = resolve_names s"
  "pending (fprintf_stderr f a s) = pending s"
  "mgmt (fprintf_stderr f a s) = mgmt s"
  "stdin (fprintf_stderr f a s) = stdin s"
  "stdout (fprintf_stderr f a s) = stdout s"
  "stderr (fprintf_stderr f a s) = stderr s @ [(f, a)]"
  by (simp_all add: fprintf_stderr_def)

lemma g_main_loop_quit_fields [simp]:
  "is_running (g_main_loop_quit s) = False"
  "monitor (g_main_loop_quit s) = monitor s"
  "discovery (g_main_loop_quit s) = discovery s"
  "resolve_names (g_main_loop_quit s) = resolve_names s"
  "pending (g_main_loop_quit s) = pending s"
  "mgmt (g_main_loop_quit s) = mgmt s"
  "stdin (g_main_loop_quit s) = stdin s"
  "stdout (g_main_loop_quit s) = stdout s"
  "stderr (g_main_loop_quit s) = stderr s"
  by (simp_all add: g_main_loop_quit_def)

lemma foldl_printf:
  "\<exists>lines. foldl (\<lambda>s' i. if P i then printf fmt (a i) s' else s') s xs =
           s\<lparr>stdout := stdout s @ lines\<rparr>"
proof (induction xs arbitrary: s)
  case Nil
  have "foldl (\<lambda>s' i. if P i then printf fmt (a i) s' else s') s [] =
          s\<lparr>stdout := stdout s @ []\<rparr>"
    by simp
  then show ?case by (rule exI)
next
  case (Cons x xs)
  show ?case
  proof (cases "P x")
    case True
    from Cons [of "printf fmt (a x) s"] obtain lines where
      "foldl (\<lambda>s' i. if P i then printf fmt (a i) s' else s') (printf fmt (a x) s) xs =
         (printf fmt (a x) s)\<lparr>stdout := stdout (printf fmt (a x) s) @ lines\<rparr>"
      by blast
    with True have "foldl (\<lambda>s' i. if P i then printf fmt (a i) s' else s') s (x # xs) =
        s\<lparr>stdout := stdout s @ ((fmt, a x) # lines)\<rparr>"
      by (simp add: printf_def)
    then show ?thesis by blast
  next
    case False
    with Cons [of s] show ?thesis by simp
  qed
qed

lemma print_settings_fields [simp]:
  "is_running (print_settings w s) = is_running s"
  "monitor (print_settings w s) = monitor s"
  "discovery (print_settings w s) = discovery s"
  "resolve_names (print_settings w s) = resolve_names s"
  "pending (print_settings w s) = pending s"
  "mgmt (print_settings w s) = mgmt s"
  "stdin (print_settings w s) = stdin s"
  "stderr (print_settings w s) = stderr s"
proof -
  obtain lines where "print_settings w s = s\<lparr>stdout := stdout s @ lines\<rparr>"
    unfolding print_settings_def
    using foldl_printf [of "\<lambda>i. w AND push_bit i 1 \<noteq> 0" "''%s ''"
            "\<lambda>i. [S (settings_str ! i)]" s "[0..<length settings_str]"]
    by blast
  then show
    "is_running (print_settings w s) = is_running s"
    "monitor (print_settings w s) = monitor s"
    "discovery (print_settings w s) = discovery s"
    "resolve_names (print_settings w s) = resolve_names s"
    "pending (print_settings w s) = pending s"
    "mgmt (print_settings w s) = mgmt s"
    "stdin (print_settings w s) = stdin s"
    "stderr (print_settings w s) = stderr s"
    by simp_all
qed

lemma printf_each_eq: "printf_each ls s = s\<lparr>stdout := stdout s @ ls\<rparr>"
proof -
  have "foldl (\<lambda>s' l. printf (fst l) (snd l) s') s ls = s\<lparr>stdout := stdout s @ ls\<rparr>"
    by (induction ls arbitrary: s) (simp_all add: printf_def)
  then show ?thesis by (simp add: printf_each_def)
qed

lemma mgmt_send_zero_iff: "fst (mgmt_send r m) = 0 \<longleftrightarrow> \<not> transport_ok m"
  by (simp add: mgmt_send_def Let_def)

lemma mgmt_reply_ok:
  "transport_ok m \<Longrightarrow>
     map snd (pending_calls (snd (mgmt_reply r m))) = map snd (pending_calls m) @ [r] \<and>
     transport_ok (snd (mgmt_reply r m))"
  by (simp add: mgmt_reply_def mgmt_send_def Let_def)

subsection \<open>Submitting a command\<close>

lemma send_cmd_result:
  "send_cmd m op id' len param cb =
     (ucast id',
      snd (mgmt_send \<lparr>req_opcode = op, req_index = id', req_length = len, req_param = param,
                       req_callback = Cmd_rsp (Command_data id' op cb)\<rparr> m))"
  by (simp add: send_cmd_def Let_def split: prod.splits)

text \<open>
  Claim C1 asks that \<open>send_cmd\<close> return the identifier of the submission, zero exactly when
  \<open>mgmt_send\<close> failed. The function returns the controller index instead
  (\<open>send_cmd_result\<close>). On controller 0 an accepted submission, to which
  \<open>mgmt_send\<close> gave the identifier 1, makes \<open>send_cmd\<close> return 0, which its callers
  read as a failure; on controller 1 a refused submission makes it return 1.
\<close>

theorem send_cmd_returns_the_index:
  "fst (mgmt_send (set_powered_request 0) example_mgmt) = 1 \<and>
   fst (send_cmd example_mgmt MGMT_OP_SET_POWERED 0 1 (Cp_bytes [1]) Setting_rsp) = 0 \<and>
   snd (send_cmd example_mgmt MGMT_OP_SET_POWERED 0 1 (Cp_bytes [1]) Setting_rsp) =
     snd (mgmt_send (set_powered_request 0) example_mgmt) \<and>
   fst (mgmt_send (set_powered_request 1) (example_mgmt\<lparr>transport_ok := False\<rparr>)) = 0 \<and>
   fst (send_cmd (example_mgmt\<lparr>transport_ok := False\<rparr>) MGMT_OP_SET_POWERED 1 1
          (Cp_bytes [1]) Setting_rsp) = 1"
  by (simp add: send_cmd_result mgmt_send_def example_mgmt_def set_powered_request_def)

subsection \<open>Responses\<close>

text \<open>
  Claim C9: whatever the status, the length and the payload of a confirm-name response, its
  callback reports the outcome with one line of output and changes nothing else: the run loop
  keeps its state, and so do the discovery flag, the policy and the pending requests.
\<close>

theorem confirm_name_rsp_keeps_session:
  "is_running (confirm_name_rsp status len param s) = is_running s \<and>
   discovery (confirm_name_rsp status len param s) = discovery s \<and>
   resolve_names (confirm_name_rsp status len param s) = resolve_names s \<and>
   monitor (confirm_name_rsp status len param s) = monitor s \<and>
   pending (confirm_name_rsp status len param s) = pending s \<and>
   mgmt (confirm_name_rsp status len param s) = mgmt s \<and>
   stdin (confirm_name_rsp status len param s) = stdin s \<and>
   length (stdout (confirm_name_rsp status len param s)) +
     length (stderr (confirm_name_rsp status len param s)) =
     length (stdout s) + length (stderr s) + 1"
  by (simp add: confirm_name_rsp_def)

text \<open>
  A failed PIN-code reply, a failed user-confirm reply and a failed read-info response each
  stop the loop: the call that follows the failed PIN reply in the run is never made, and the
  read-info response stops the loop although another read-info call is still pending.
\<close>

theorem failed_reply_stops_the_loop:
  "g_main_loop_run (\<lambda>eir eir_len. None)
     [Response Pin_rsp 1 0 [], Event MGMT_EV_INDEX_ADDED 0 0 []]
     (example_state\<lparr>monitor := True\<rparr>) =
     Inr (pin_rsp 1 0 [] (example_state\<lparr>monitor := True\<rparr>)) \<and>
   \<not> is_running (pin_rsp 1 0 [] (example_state\<lparr>monitor := True\<rparr>)) \<and>
   \<not> is_running (complete Confirm_rsp 1 0 [] example_state) \<and>
   pending (complete (Info_rsp 0) 1 0 [] (example_state\<lparr>pending := 2\<rparr>)) = 1 \<and>
   \<not> is_running (complete (Info_rsp 0) 1 0 [] (example_state\<lparr>pending := 2\<rparr>))"
  by (simp add: g_main_loop_run_def complete_def pin_rsp_def confirm_rsp_def info_rsp_def
        example_state_def)

text \<open>
  Claim C3, as the code has it: a response with a non-success status is handled by the
  callback of its own request alone, and nothing of the session changes but the run loop, the
  count \<open>pending\<close> and the output. The callback of a confirm-name request leaves the run
  loop as it was; every other callback quits the loop, the read-info callback after it has
  decremented \<open>pending\<close> and whatever the count then is. The failure is reported with
  exactly one line on \<open>stderr\<close> and nothing on \<open>stdout\<close>, except where the callback
  does not look at the status (\<open>status_unchecked\<close>): there the response is handled as
  one with status 0 is.
\<close>

theorem failed_response_quits:
  assumes "status \<noteq> 0"
  shows "is_running (complete cb status len param s) = (cb = Confirm_name_rsp \<and> is_running s) \<and>
         pending (complete cb status len param s) =
           (case cb of Info_rsp user_data \<Rightarrow> pending s - 1 | _ \<Rightarrow> pending s) \<and>
         monitor (complete cb status len param s) = monitor s \<and>
         discovery (complete cb status len param s) = discovery s \<and>
         resolve_names (complete cb status len param s) = resolve_names s \<and>
         mgmt (complete cb status len param s) = mgmt s \<and>
         stdin (complete cb status len param s) = stdin s \<and>
         (if status_unchecked cb len
          then complete cb status len param s = complete cb 0 len param s
          else stdout (complete cb status len param s) = stdout s \<and>
               (\<exists>line. stderr (complete cb status len param s) = stderr s @ [line]))"
  using assms
  by (cases cb)
     (auto simp add: complete_def status_unchecked_def confirm_name_rsp_def pin_rsp_def
        pin_neg_rsp_def confirm_rsp_def confirm_neg_rsp_def version_rsp_def commands_rsp_def
        info_rsp_def index_rsp_def cmd_rsp_def setting_rsp_def class_rsp_def block_rsp_def
        disconnect_rsp_def con_rsp_def find_rsp_def name_rsp_def pair_rsp_def
        cancel_pair_rsp_def unpair_rsp_def keys_rsp_def did_rsp_def printf_each_eq Let_def
        sizeof_defs
        split: cmd_callback.split)

theorem failed_response_quits_witness:
  "(1 :: u8) \<noteq> 0 \<and>
   \<not> is_running (complete (Info_rsp 0) 1 0 [] (example_state\<lparr>pending := 2\<rparr>)) \<and>
   pending (complete (Info_rsp 0) 1 0 [] (example_state\<lparr>pending := 2\<rparr>)) = 1 \<and>
   \<not> monitor (complete (Info_rsp 0) 1 0 [] (example_state\<lparr>pending := 2\<rparr>)) \<and>
   \<not> discovery (complete (Info_rsp 0) 1 0 [] (example_state\<lparr>pending := 2\<rparr>)) \<and>
   resolve_names (complete (Info_rsp 0) 1 0 [] (example_state\<lparr>pending := 2\<rparr>)) \<and>
   mgmt (complete (Info_rsp 0) 1 0 [] (example_state\<lparr>pending := 2\<rparr>)) = example_mgmt \<and>
   stdout (complete (Info_rsp 0) 1 0 [] (example_state\<lparr>pending := 2\<rparr>)) = [] \<and>
   (\<exists>line. stderr (complete (Info_rsp 0) 1 0 [] (example_state\<lparr>pending := 2\<rparr>)) = [line]) \<and>
   complete (Cmd_rsp (Command_data 0 MGMT_OP_SET_DEV_CLASS Class_rsp)) 1 3 [4, 1, 0] example_state =
     complete (Cmd_rsp (Command_data 0 MGMT_OP_SET_DEV_CLASS Class_rsp)) 0 3 [4, 1, 0] example_state"
proof -
  have h: "(1 :: u8) \<noteq> 0" by simp
  from failed_response_quits [OF h, of "Info_rsp 0" 0 "[]" "example_state\<lparr>pending := 2\<rparr>"]
       failed_response_quits [OF h, of "Cmd_rsp (Command_data 0 MGMT_OP_SET_DEV_CLASS Class_rsp)"
         3 "[4, 1, 0]" example_state]
  show ?thesis by (simp add: example_state_def status_unchecked_def sizeof_defs)
qed

subsection \<open>Events\<close>

text \<open>
  Claim C8: an event whose payload is shorter than the handler of its code requires is
  reported with one line on \<open>stderr\<close> and dropped; the state is otherwise the one before
  the event, so the loop is not quit, the discovery flag and the policy are unchanged, nothing
  is read from the operator and no request is submitted.
\<close>

theorem short_event_is_dropped:
  assumes "unat len < min_payload ev"
  shows "\<exists>line. notify eir_parse ev index len param s = Inr (s\<lparr>stderr := stderr s @ [line]\<rparr>)"
  using assms
  by (cases ev)
     (auto simp add: notify_def min_payload_def sizeof_defs controller_error_def new_settings_def
        discovering_def new_link_key_def connected_def disconnected_def conn_failed_def
        auth_failed_def local_name_changed_def device_found_def request_pin_def
        user_confirm_def fprintf_stderr_def)

theorem short_event_is_dropped_witness:
  "unat (1 :: u16) < min_payload MGMT_EV_DISCOVERING \<and>
   unat (11 :: u16) < min_payload MGMT_EV_USER_CONFIRM_REQUEST \<and>
   (\<exists>line. notify (\<lambda>eir eir_len. None) MGMT_EV_DISCOVERING 0 1 [0]
              (example_state\<lparr>discovery := True\<rparr>) =
            Inr (example_state\<lparr>discovery := True, stderr := [line]\<rparr>)) \<and>
   (\<exists>line. notify (\<lambda>eir eir_len. None) MGMT_EV_USER_CONFIRM_REQUEST 0 11
              (take 11 example_confirm_request) (example_state\<lparr>stdin := ''yes''\<rparr>) =
            Inr (example_state\<lparr>stdin := ''yes'', stderr := [line]\<rparr>))"
proof -
  have h1: "unat (1 :: u16) < min_payload MGMT_EV_DISCOVERING"
    and h2: "unat (11 :: u16) < min_payload MGMT_EV_USER_CONFIRM_REQUEST"
    by (simp_all add: min_payload_def sizeof_defs)
  from short_event_is_dropped [OF h1, of "\<lambda>eir eir_len. None" 0 "[0]"
         "example_state\<lparr>discovery := True\<rparr>"]
       short_event_is_dropped [OF h2, of "\<lambda>eir eir_len. None" 0
         "take 11 example_confirm_request" "example_state\<lparr>stdin := ''yes''\<rparr>"]
  show ?thesis using h1 h2 by (simp add: example_state_def)
qed

lemma request_pin_keeps_loop:
  assumes "request_pin index len param s = Inr s'"
  shows "is_running s' = is_running s \<and> discovery s' = discovery s"
proof (cases "unat len \<noteq> sizeof_mgmt_ev_pin_code_request")
  case True
  with assms show ?thesis by (auto simp add: request_pin_def)
next
  case False
  with assms show ?thesis
    by (simp add: request_pin_def Let_def split: if_splits option.splits sum.splits prod.splits)
       auto
qed

lemma user_confirm_keeps_loop:
  assumes "user_confirm index len param s = Inr s'"
  shows "is_running s' = is_running s \<and> discovery s' = discovery s"
proof (cases "unat len \<noteq> sizeof_mgmt_ev_user_confirm_request")
  case True
  with assms show ?thesis by (auto simp add: user_confirm_def)
next
  case False
  with assms show ?thesis
    by (simp add: user_confirm_def Let_def split: if_splits option.splits sum.splits prod.splits)
       auto
qed

lemma device_found_keeps_loop:
  "is_running (device_found eir_parse index len param s) = is_running s \<and>
   discovery (device_found eir_parse index len param s) = discovery s"
  by (simp add: device_found_def Let_def split: option.splits prod.splits)

lemma discovering_loop:
  "is_running (discovering index len param s) =
     (is_running s \<and>
      \<not> (sizeof_mgmt_ev_discovering \<le> unat len \<and> get_u8 param 1 = 0 \<and> discovery s))"
  "discovery (discovering index len param s) = discovery s"
  by (auto simp add: discovering_def Let_def)

lemma reporting_handlers_keep_loop:
  "is_running (controller_error index len param s) = is_running s"
  "discovery (controller_error index len param s) = discovery s"
  "is_running (index_added index len param s) = is_running s"
  "discovery (index_added index len param s) = discovery s"
  "is_running (index_removed index len param s) = is_running s"
  "discovery (index_removed index len param s) = discovery s"
  "is_running (new_settings index len param s) = is_running s"
  "discovery (new_settings index len param s) = discovery s"
  "is_running (new_link_key index len param s) = is_running s"
  "discovery (new_link_key index len param s) = discovery s"
  "is_running (connected index len param s) = is_running s"
  "discovery (connected index len param s) = discovery s"
  "is_running (disconnected index len param s) = is_running s"
  "discovery (disconnected index len param s) = discovery s"
  "is_running (conn_failed index len param s) = is_running s"
  "discovery (conn_failed index len param s) = discovery s"
  "is_running (auth_failed index len param s) = is_running s"
  "discovery (auth_failed index len param s) = discovery s"
  "is_running (local_name_changed index len param s) = is_running s"
  "discovery (local_name_changed index len param s) = discovery s"
  by (simp_all add: controller_error_def index_added_def index_removed_def
        new_settings_def new_link_key_def connected_def disconnected_def conn_failed_def
        auth_failed_def local_name_changed_def Let_def)

lemma notify_loop:
  assumes "notify eir_parse ev index len param s = Inr s'"
  shows "is_running s' =
           (is_running s \<and>
            \<not> (ev = MGMT_EV_DISCOVERING \<and> sizeof_mgmt_ev_discovering \<le> unat len \<and>
               get_u8 param 1 = 0 \<and> discovery s)) \<and>
         discovery s' = discovery s"
proof (cases ev)
  case MGMT_EV_PIN_CODE_REQUEST
  with assms request_pin_keeps_loop [of index len param s s'] show ?thesis
    by (simp add: notify_def)
next
  case MGMT_EV_USER_CONFIRM_REQUEST
  with assms user_confirm_keeps_loop [of index len param s s'] show ?thesis
    by (simp add: notify_def)
next
  case MGMT_EV_DISCOVERING
  with assms show ?thesis
    by (auto simp add: notify_def discovering_loop)
next
  case MGMT_EV_DEVICE_FOUND
  with assms show ?thesis
    by (auto simp add: notify_def device_found_keeps_loop)
qed (use assms in \<open>auto simp add: notify_def reporting_handlers_keep_loop\<close>)

text \<open>
  Claim C7. Of the handlers that \<^verbatim>\<open>main\<close> registers, only \<open>discovering\<close> can
  quit the run loop, and it does so exactly for a payload of at least the two bytes of the
  event that reports "stopped" while the flag \<open>discovery\<close> is set, that is after a
  successful start-discovery response; no handler changes the flag. Such an event ends the run:
  the calls that follow it are not made. The start-discovery response sets the flag and leaves
  the loop running when its status is 0; a failed one quits the loop, and so ends the run,
  with the flag as it was.
\<close>

theorem discovery_stopped_is_the_trigger:
  "(notify eir_parse ev index len param s = Inr s' \<longrightarrow>
      is_running s' =
        (is_running s \<and>
         \<not> (ev = MGMT_EV_DISCOVERING \<and> sizeof_mgmt_ev_discovering \<le> unat len \<and>
            get_u8 param 1 = 0 \<and> discovery s)) \<and>
      discovery s' = discovery s) \<and>
   (discovery s \<and> sizeof_mgmt_ev_discovering \<le> unat len \<and> get_u8 param 1 = 0 \<longrightarrow>
      g_main_loop_run eir_parse (Event MGMT_EV_DISCOVERING index len param # cs) s =
        Inr (discovering index len param (s\<lparr>is_running := True\<rparr>))) \<and>
   is_running (find_rsp status rlen rparam s) = (is_running s \<and> status = 0) \<and>
   discovery (find_rsp status rlen rparam s) = (discovery s \<or> status = 0) \<and>
   (status \<noteq> 0 \<longrightarrow>
      g_main_loop_run eir_parse (Response Find_rsp status rlen rparam # cs) s =
        Inr (find_rsp status rlen rparam (s\<lparr>is_running := True\<rparr>)))"
  using notify_loop [of eir_parse ev index len param s s']
  by (simp add: find_rsp_def g_main_loop_run_def notify_def complete_def discovering_loop)

theorem discovery_stopped_is_the_trigger_witness:
  "notify (\<lambda>eir eir_len. None) MGMT_EV_DISCOVERING 0 2 [7, 0]
     (example_state\<lparr>discovery := True\<rparr>) =
     Inr (example_state\<lparr>is_running := False, discovery := True\<rparr>) \<and>
   \<not> is_running (example_state\<lparr>is_running := False, discovery := True\<rparr>) \<and>
   discovery (example_state\<lparr>discovery := True\<rparr>) \<and>
   sizeof_mgmt_ev_discovering \<le> unat (2 :: u16) \<and> get_u8 [7, 0] 1 = 0 \<and>
   g_main_loop_run (\<lambda>eir eir_len. None)
     [Event MGMT_EV_DISCOVERING 0 2 [7, 0], Event MGMT_EV_DISCOVERING 0 2 [7, 1]]
     (example_state\<lparr>discovery := True\<rparr>) =
     Inr (example_state\<lparr>is_running := False, discovery := True\<rparr>) \<and>
   (1 :: u8) \<noteq> 0 \<and>
   \<not> is_running (find_rsp 1 0 [] example_state) \<and>
   \<not> discovery (find_rsp 1 0 [] example_state) \<and>
   g_main_loop_run (\<lambda>eir eir_len. None)
     [Response Find_rsp 1 0 [], Event MGMT_EV_DISCOVERING 0 2 [7, 0]] example_state =
     Inr (find_rsp 1 0 [] example_state)"
  using discovery_stopped_is_the_trigger
          [of "\<lambda>eir eir_len. None" MGMT_EV_DISCOVERING 0 2 "[7, 0]"
              "example_state\<lparr>discovery := True\<rparr>"
              "example_state\<lparr>is_running := False, discovery := True\<rparr>"
              "[Event MGMT_EV_DISCOVERING 0 2 [7, 1]]" 1 0 "[]"]
        discovery_stopped_is_the_trigger
          [of "\<lambda>eir eir_len. None" MGMT_EV_DISCOVERING 0 2 "[7, 0]" example_state
              example_state "[Event MGMT_EV_DISCOVERING 0 2 [7, 0]]" 1 0 "[]"]
  by (simp add: example_state_def notify_def discovering_def g_main_loop_quit_def
        sizeof_defs get_u8_def)

subsection \<open>Found devices\<close>

lemma device_found_step:
  assumes "transport_ok (mgmt s)"
  shows "requests (device_found eir_parse index len param s) =
           requests s @ (if discovery s \<and> confirm_name_flagged len param
                         then [confirm_name_request (resolve_names s) index param] else [])"
    and "transport_ok (mgmt (device_found eir_parse index len param s))"
    and "is_running (device_found eir_parse index len param s) = is_running s"
    and "discovery (device_found eir_parse index len param s) = discovery s"
    and "resolve_names (device_found eir_parse index len param s) = resolve_names s"
  using mgmt_reply_ok [OF assms] assms
  by (simp_all add: device_found_def requests_def confirm_name_flagged_def
        confirm_name_request_def Let_def sizeof_defs case_prod_unfold split: option.splits)

lemma iterate_found:
  assumes "transport_ok (mgmt s)" "is_running s"
  shows "\<exists>s'. iterate eir_parse (map found evs) s = Inr s' \<and>
           requests s' = requests s @
             (if discovery s
              then map (\<lambda>(index, len, param). confirm_name_request (resolve_names s) index param)
                     (filter (\<lambda>(index, len, param). confirm_name_flagged len param) evs)
              else [])"
  using assms
proof (induction evs arbitrary: s)
  case Nil
  then show ?case by simp
next
  case (Cons e evs)
  obtain index len param where e: "e = (index, len, param)" by (cases e)
  let ?s1 = "device_found eir_parse index len param s"
  note step = device_found_step [OF Cons.prems(1), of eir_parse index len param]
  from Cons.IH [of ?s1] step Cons.prems
  obtain s' where s': "iterate eir_parse (map found evs) ?s1 = Inr s'"
    "requests s' = requests ?s1 @
       (if discovery ?s1
        then map (\<lambda>(index, len, param). confirm_name_request (resolve_names ?s1) index param)
               (filter (\<lambda>(index, len, param). confirm_name_flagged len param) evs)
        else [])"
    by auto
  have "iterate eir_parse (map found (e # evs)) s = Inr s'"
    using s'(1) step(3) Cons.prems(2) by (simp add: e found_def notify_def)
  moreover have "requests s' = requests s @
       (if discovery s
        then map (\<lambda>(index, len, param). confirm_name_request (resolve_names s) index param)
               (filter (\<lambda>(index, len, param). confirm_name_flagged len param) (e # evs))
        else [])"
    using s'(2) step by (simp add: e)
  ultimately show ?case by blast
qed

text \<open>
  With the policy \<open>resolve_names\<close> disabled and discovery active, a flagged found-device
  event still has a confirm-name request submitted: one request, with \<open>name_known = 1\<close>.
\<close>

theorem confirm_name_sent_without_resolve_names:
  "requests (device_found (\<lambda>eir eir_len. None) 0 14 example_found
               (example_state\<lparr>discovery := True, resolve_names := False\<rparr>)) =
     [\<lparr>req_opcode = MGMT_OP_CONFIRM_NAME, req_index = 0, req_length = 8,
       req_param = Cp_confirm_name
                     \<lparr>bdaddr = [0xFF, 0xEE, 0xDD, 0xCC, 0xBB, 0xAA], type = 1\<rparr> 1,
       req_callback = Confirm_name_rsp\<rparr>] \<and>
   length (filter is_confirm_name
             (requests (device_found (\<lambda>eir eir_len. None) 0 14 example_found
                          (example_state\<lparr>discovery := True, resolve_names := False\<rparr>)))) = 1"
  by (simp add: device_found_def example_state_def example_mgmt_def example_found_def
        requests_def is_confirm_name_def mgmt_reply_def mgmt_send_def sizeof_defs Let_def
        bt_get_le16_def bt_get_le32_def get_addr_def get_bytes_def get_u8_def
        MGMT_DEV_FOUND_CONFIRM_NAME_def printf_def)

text \<open>
  Claim C2, as the code has it: while discovery is active and the transport accepts the
  writes, every found-device event of a run that is well-formed and carries the confirm-name
  flag has exactly one confirm-name request submitted, whatever the policy
  \<open>resolve_names\<close> says; no other found-device event has one, and none has before
  discovery is active. So the number of confirm-name requests of a run of found-device events
  is the number of its flagged events under either policy.
\<close>

theorem confirm_name_for_every_flagged_device:
  assumes "transport_ok (mgmt s)"
  shows "\<exists>s'. g_main_loop_run eir_parse (map found evs) s = Inr s' \<and>
           length (filter is_confirm_name (requests s')) =
             length (filter is_confirm_name (requests s)) +
             (if discovery s
              then length (filter (\<lambda>(index, len, param). confirm_name_flagged len param) evs)
              else 0)"
proof -
  let ?s = "s\<lparr>is_running := True\<rparr>"
  from iterate_found [of ?s eir_parse evs] assms
  obtain s' where s': "iterate eir_parse (map found evs) ?s = Inr s'"
    "requests s' = requests ?s @
       (if discovery ?s
        then map (\<lambda>(index, len, param). confirm_name_request (resolve_names ?s) index param)
               (filter (\<lambda>(index, len, param). confirm_name_flagged len param) evs)
        else [])"
    by auto
  have all: "length (filter is_confirm_name
          (map (\<lambda>(index, len, param). confirm_name_request r index param) xs)) = length xs"
    for r xs
    by (induction xs) (auto simp add: is_confirm_name_def confirm_name_request_def)
  have same: "requests ?s = requests s"
    by (simp add: requests_def)
  have run: "g_main_loop_run eir_parse (map found evs) s = Inr s'"
    using s'(1) by (simp add: g_main_loop_run_def)
  show ?thesis
  proof (cases "discovery s")
    case True
    then have "requests s' = requests s @
        map (\<lambda>(index, len, param). confirm_name_request (resolve_names s) index param)
          (filter (\<lambda>(index, len, param). confirm_name_flagged len param) evs)"
      using s'(2) same by simp
    then have "length (filter is_confirm_name (requests s')) =
        length (filter is_confirm_name (requests s)) +
        length (filter (\<lambda>(index, len, param). confirm_name_flagged len param) evs)"
      by (simp only: filter_append length_append all)
    with run True show ?thesis by simp
  next
    case False
    then have "requests s' = requests s"
      using s'(2) same by simp
    with run False show ?thesis by simp
  qed
qed

lemma example_found_flags:
  "confirm_name_flagged 14 example_found"
  "\<not> confirm_name_flagged 14 example_found_unflagged"
  "\<not> confirm_name_flagged 13 example_found"
  by (simp_all add: confirm_name_flagged_def example_found_def example_found_unflagged_def
        sizeof_defs bt_get_le16_def bt_get_le32_def MGMT_DEV_FOUND_CONFIRM_NAME_def)

theorem confirm_name_for_every_flagged_device_witness:
  "transport_ok (mgmt (example_state\<lparr>discovery := True, resolve_names := False\<rparr>)) \<and>
   (\<exists>s'. g_main_loop_run (\<lambda>eir eir_len. None)
            (map found [(0, 14, example_found), (0, 14, example_found_unflagged),
                        (0, 13, example_found), (0, 14, example_found)])
            (example_state\<lparr>discovery := True, resolve_names := False\<rparr>) = Inr s' \<and>
         length (filter is_confirm_name (requests s')) = 2)"
proof -
  have h: "transport_ok (mgmt (example_state\<lparr>discovery := True, resolve_names := False\<rparr>))"
    by (simp add: example_state_def example_mgmt_def)
  from confirm_name_for_every_flagged_device [OF h, of "\<lambda>eir eir_len. None"
         "[(0, 14, example_found), (0, 14, example_found_unflagged),
           (0, 13, example_found), (0, 14, example_found)]"]
  show ?thesis
    using h
    by (simp add: example_found_flags requests_def example_state_def example_mgmt_def
          numeral_2_eq_2)
qed

text \<open>
  Claim C4: a well-formed found-device event with the confirm-name flag set, arriving while
  discovery is active, has one confirm-name request submitted for the address of the event;
  its field \<open>name_known\<close> is 1 when \<open>resolve_names\<close> is false and 0 when it is true.
\<close>

theorem confirm_name_reply_name_known:
  assumes "discovery s" "confirm_name_flagged len param" "transport_ok (mgmt s)"
  shows "requests (device_found eir_parse index len param s) =
           requests s @
             [\<lparr>req_opcode = MGMT_OP_CONFIRM_NAME, req_index = index,
               req_length = of_nat sizeof_mgmt_cp_confirm_name,
               req_param = Cp_confirm_name (get_addr param 0) (if resolve_names s then 0 else 1),
               req_callback = Confirm_name_rsp\<rparr>]"
  using device_found_step(1) [OF assms(3), of eir_parse index len param] assms(1,2)
  by (simp add: confirm_name_request_def)

theorem confirm_name_reply_name_known_witness:
  "discovery (example_state\<lparr>discovery := True, resolve_names := False\<rparr>) \<and>
   confirm_name_flagged 14 example_found \<and>
   transport_ok (mgmt (example_state\<lparr>discovery := True, resolve_names := False\<rparr>)) \<and>
   requests (device_found (\<lambda>eir eir_len. None) 3 14 example_found
               (example_state\<lparr>discovery := True, resolve_names := False\<rparr>)) =
     [\<lparr>req_opcode = MGMT_OP_CONFIRM_NAME, req_index = 3, req_length = 8,
       req_param = Cp_confirm_name
                     \<lparr>bdaddr = [0xFF, 0xEE, 0xDD, 0xCC, 0xBB, 0xAA], type = 1\<rparr> 1,
       req_callback = Confirm_name_rsp\<rparr>] \<and>
   requests (device_found (\<lambda>eir eir_len. None) 3 14 example_found
               (example_state\<lparr>discovery := True\<rparr>)) =
     [\<lparr>req_opcode = MGMT_OP_CONFIRM_NAME, req_index = 3, req_length = 8,
       req_param = Cp_confirm_name
                     \<lparr>bdaddr = [0xFF, 0xEE, 0xDD, 0xCC, 0xBB, 0xAA], type = 1\<rparr> 0,
       req_callback = Confirm_name_rsp\<rparr>]"
proof -
  have h: "discovery (example_state\<lparr>discovery := True, resolve_names := False\<rparr>)"
    "transport_ok (mgmt (example_state\<lparr>discovery := True, resolve_names := False\<rparr>))"
    and h': "discovery (example_state\<lparr>discovery := True\<rparr>)"
    "transport_ok (mgmt (example_state\<lparr>discovery := True\<rparr>))"
    by (simp_all add: example_state_def example_mgmt_def)
  have addr: "get_addr example_found 0 =
      \<lparr>bdaddr = [0xFF, 0xEE, 0xDD, 0xCC, 0xBB, 0xAA], type = 1\<rparr>"
    by (simp add: get_addr_def get_bytes_def get_u8_def example_found_def)
  from confirm_name_reply_name_known [OF h(1) example_found_flags(1) h(2),
         of "\<lambda>eir eir_len. None" 3]
       confirm_name_reply_name_known [OF h'(1) example_found_flags(1) h'(2),
         of "\<lambda>eir eir_len. None" 3]
  show ?thesis
    using h example_found_flags(1)
    by (simp add: addr sizeof_defs requests_def example_state_def example_mgmt_def)
qed

subsection \<open>Reading a line\<close>

lemma fgets_chars_numeral [simp]:
  "fgets_chars (numeral n) [] = ([], [])"
  "fgets_chars (numeral n) (c # inp) =
     (if c = CHR ''\<newline>'' then ([c], inp)
      else (let (r, rest) = fgets_chars (pred_numeral n) inp in (c # r, rest)))"
  by (simp_all add: numeral_eq_Suc)

lemma fgets_chars_line:
  "CHR ''\<newline>'' \<notin> set line \<Longrightarrow> length line < k \<Longrightarrow>
     fgets_chars k (line @ CHR ''\<newline>'' # rest) = (line @ [CHR ''\<newline>''], rest)"
proof (induction line arbitrary: k)
  case Nil
  then show ?case by (cases k) simp_all
next
  case (Cons c line)
  then show ?case by (cases k) auto
qed

lemma fgets_chars_eof:
  "CHR ''\<newline>'' \<notin> set line \<Longrightarrow> length line \<le> k \<Longrightarrow> fgets_chars k line = (line, [])"
proof (induction line arbitrary: k)
  case Nil
  then show ?case by (cases k) simp_all
next
  case (Cons c line)
  then show ?case by (cases k) auto
qed


lemma strlen_terminated:
  "CHR 0x00 \<notin> set r \<Longrightarrow> strlen (r @ CHR 0x00 # xs) = length r"
  by (induction r) (auto simp add: strlen_def)


lemma strlen_line:
  assumes "CHR 0x00 \<notin> set line"
  shows "strlen (line @ CHR 0x00 # xs) = length line"
    and "strlen (line @ CHR ''\<newline>'' # CHR 0x00 # xs) = Suc (length line)"
  using assms strlen_terminated [of "line @ [CHR ''\<newline>'']" xs] strlen_terminated [of line xs]
  by simp_all

lemma fgets_pin_eof:
  assumes "line \<noteq> []" "CHR ''\<newline>'' \<notin> set line" "length line \<le> 16"
  shows "fgets (replicate 18 (CHR 0x00)) 18 line =
           (Some (line @ CHR 0x00 # replicate (17 - length line) (CHR 0x00)), [])"
  using assms fgets_chars_eof [of line 17]
  by (simp add: fgets_def)

lemma fgets_pin_line:
  assumes "CHR ''\<newline>'' \<notin> set line" "length line \<le> 16"
  shows "fgets (replicate 18 (CHR 0x00)) 18 (line @ CHR ''\<newline>'' # rest) =
           (Some (line @ CHR ''\<newline>'' # CHR 0x00 # replicate (16 - length line) (CHR 0x00)),
            rest)"
  using assms fgets_chars_line [of line 17 rest]
  by (simp add: fgets_def)


subsection \<open>PIN requests\<close>

lemma pin_reply_ok:
  assumes "transport_ok m" "length line \<le> 16" "take (length line) pin = line"
    "length line \<le> length pin"
  shows "\<exists>n m'. mgmt_pin_reply m index addr pin (length line) = Inr (n, m') \<and>
           map snd (pending_calls m') = map snd (pending_calls m) @
             [\<lparr>req_opcode = MGMT_OP_PIN_CODE_REPLY, req_index = index,
               req_length = of_nat sizeof_mgmt_cp_pin_code_reply,
               req_param = Cp_pin_code_reply addr (of_nat (length line))
                             (line @ replicate (sizeof_pin_code - length line) (CHR 0x00)),
               req_callback = Pin_rsp\<rparr>]"
  using assms mgmt_reply_ok [OF assms(1)]
  by (cases "mgmt_reply \<lparr>req_opcode = MGMT_OP_PIN_CODE_REPLY, req_index = index,
               req_length = of_nat sizeof_mgmt_cp_pin_code_reply,
               req_param = Cp_pin_code_reply addr (of_nat (length line))
                             (line @ replicate (sizeof_pin_code - length line) (CHR 0x00)),
               req_callback = Pin_rsp\<rparr> m")
     (simp add: mgmt_pin_reply_def sizeof_pin_code_def, metis snd_conv)

lemma request_pin_rejects:
  assumes "unat len = sizeof_mgmt_ev_pin_code_request" "transport_ok (mgmt s)"
    "stdin s = [] \<or> hd (stdin s) = CHR ''\<newline>''"
  shows "\<exists>s'. request_pin index len param s = Inr s' \<and>
           requests s' = requests s @
             [\<lparr>req_opcode = MGMT_OP_PIN_CODE_NEG_REPLY, req_index = index,
               req_length = of_nat sizeof_mgmt_cp_pin_code_neg_reply,
               req_param = Cp_pin_code_neg_reply (get_addr param 0),
               req_callback = Pin_neg_rsp\<rparr>]"
proof (cases "stdin s")
  case Nil
  then show ?thesis
    using assms(1) mgmt_reply_ok [OF assms(2)]
    by (simp add: request_pin_def fgets_def Let_def requests_def mgmt_pin_neg_reply_def)
next
  case (Cons c cs)
  with assms(3) have "fgets (replicate 18 (CHR 0x00)) 18 (stdin s) =
      (Some (CHR ''\<newline>'' # replicate 17 (CHR 0x00)), cs)"
    by (simp add: fgets_def numeral_eq_Suc)
  then show ?thesis
    using assms(1) mgmt_reply_ok [OF assms(2)]
    by (simp add: request_pin_def Let_def requests_def mgmt_pin_neg_reply_def)
qed

lemma request_pin_core:
  assumes "unat len = sizeof_mgmt_ev_pin_code_request"
    and "fgets (replicate 18 (CHR 0x00)) 18 (stdin s) = (Some pin, rest)"
    and "pin ! 0 \<noteq> CHR ''\<newline>''" "strlen pin = Suc k"
  shows "\<exists>s3. mgmt s3 = mgmt s \<and>
           request_pin index len param s =
             (case mgmt_pin_reply (mgmt s) index (get_addr param 0)
                     (if pin ! k = CHR ''\<newline>'' then pin[k := CHR 0x00] else pin)
                     (if pin ! k = CHR ''\<newline>'' then k else Suc k) of
                Inl f \<Rightarrow> Inl f
              | Inr (n, m) \<Rightarrow> Inr (s3\<lparr>mgmt := m\<rparr>))"
proof -
  let ?s3 = "(printf ''PIN Request (press enter to reject) >> '' []
               (if monitor s then
                  printf ''hci%u %s request PIN\<newline>''
                    [U (unat index), Ba2str (bdaddr (get_addr param 0))] s
                else s))\<lparr>stdin := rest\<rparr>"
  have "mgmt ?s3 = mgmt s" by simp
  moreover have "request_pin index len param s =
             (case mgmt_pin_reply (mgmt s) index (get_addr param 0)
                     (if pin ! k = CHR ''\<newline>'' then pin[k := CHR 0x00] else pin)
                     (if pin ! k = CHR ''\<newline>'' then k else Suc k) of
                Inl f \<Rightarrow> Inl f
              | Inr (n, m) \<Rightarrow> Inr (?s3\<lparr>mgmt := m\<rparr>))"
    using assms by (simp add: request_pin_def Let_def)
  ultimately show ?thesis by blast
qed

lemma request_pin_accepts:
  assumes "unat len = sizeof_mgmt_ev_pin_code_request" "transport_ok (mgmt s)"
    and "stdin s = line @ rest" "rest = [] \<or> hd rest = CHR ''\<newline>''"
    and "line \<noteq> []" "CHR ''\<newline>'' \<notin> set line" "CHR 0x00 \<notin> set line"
    and "length line \<le> sizeof_pin_code"
  shows "\<exists>s'. request_pin index len param s = Inr s' \<and>
           requests s' = requests s @
             [\<lparr>req_opcode = MGMT_OP_PIN_CODE_REPLY, req_index = index,
               req_length = of_nat sizeof_mgmt_cp_pin_code_reply,
               req_param = Cp_pin_code_reply (get_addr param 0) (of_nat (length line))
                             (line @ replicate (sizeof_pin_code - length line) (CHR 0x00)),
               req_callback = Pin_rsp\<rparr>]"
proof -
  have len16: "length line \<le> 16" using assms(8) by (simp add: sizeof_pin_code_def)
  obtain k where k: "length line = Suc k" using assms(5) by (cases line) auto
  have first: "line ! 0 \<noteq> CHR ''\<newline>''" and last: "line ! k \<noteq> CHR ''\<newline>''"
    using assms(6) k by (metis nth_mem zero_less_Suc, metis nth_mem lessI)
  define pin :: string and n :: nat where
    "pin = (if rest = [] then line @ CHR 0x00 # replicate (17 - length line) (CHR 0x00)
            else line @ CHR ''\<newline>'' # CHR 0x00 # replicate (16 - length line) (CHR 0x00))"
    and "n = (if rest = [] then k else Suc k)"
  have fg: "fgets (replicate 18 (CHR 0x00)) 18 (stdin s) = (Some pin, drop 1 rest)"
  proof (cases rest)
    case Nil
    then show ?thesis
      using fgets_pin_eof [OF assms(5,6) len16] assms(3) by (simp add: pin_def)
  next
    case (Cons d rest')
    with assms(4) have "rest = CHR ''\<newline>'' # rest'" by simp
    then show ?thesis
      using fgets_pin_line [OF assms(6) len16, of rest'] assms(3) by (simp add: pin_def)
  qed
  have p0: "pin ! 0 \<noteq> CHR ''\<newline>''"
    using first k by (simp add: pin_def nth_append)
  have sl: "strlen pin = Suc n"
    using strlen_line [OF assms(7)] k by (simp add: pin_def n_def)
  have args: "(if pin ! n = CHR ''\<newline>'' then pin[n := CHR 0x00] else pin) =
                (if rest = [] then pin else pin[length line := CHR 0x00])"
    "(if pin ! n = CHR ''\<newline>'' then n else Suc n) = length line"
    using last k by (simp_all add: pin_def n_def nth_append)
  have tk: "take (length line) (if rest = [] then pin else pin[length line := CHR 0x00]) = line"
    by (simp add: pin_def)
  have ln: "length line \<le> length (if rest = [] then pin else pin[length line := CHR 0x00])"
    by (simp add: pin_def)
  from request_pin_core [OF assms(1) fg p0 sl, of index param]
  obtain s3 where s3: "mgmt s3 = mgmt s"
    "request_pin index len param s =
       (case mgmt_pin_reply (mgmt s) index (get_addr param 0)
               (if rest = [] then pin else pin[length line := CHR 0x00]) (length line) of
          Inl f \<Rightarrow> Inl f
        | Inr (n, m) \<Rightarrow> Inr (s3\<lparr>mgmt := m\<rparr>))"
    unfolding args by blast
  from pin_reply_ok [OF assms(2) len16 tk ln, of index "get_addr param 0"]
  obtain i m' where rep:
    "mgmt_pin_reply (mgmt s) index (get_addr param 0)
       (if rest = [] then pin else pin[length line := CHR 0x00]) (length line) = Inr (i, m')"
    "map snd (pending_calls m') = map snd (pending_calls (mgmt s)) @
             [\<lparr>req_opcode = MGMT_OP_PIN_CODE_REPLY, req_index = index,
               req_length = of_nat sizeof_mgmt_cp_pin_code_reply,
               req_param = Cp_pin_code_reply (get_addr param 0) (of_nat (length line))
                             (line @ replicate (sizeof_pin_code - length line) (CHR 0x00)),
               req_callback = Pin_rsp\<rparr>]"
    by blast
  have "request_pin index len param s = Inr (s3\<lparr>mgmt := m'\<rparr>)"
    using s3(2) rep(1) by simp
  moreover have "requests (s3\<lparr>mgmt := m'\<rparr>) = requests s @
             [\<lparr>req_opcode = MGMT_OP_PIN_CODE_REPLY, req_index = index,
               req_length = of_nat sizeof_mgmt_cp_pin_code_reply,
               req_param = Cp_pin_code_reply (get_addr param 0) (of_nat (length line))
                             (line @ replicate (sizeof_pin_code - length line) (CHR 0x00)),
               req_callback = Pin_rsp\<rparr>]"
    using rep(2) by (simp add: requests_def)
  ultimately show ?thesis by blast
qed

text \<open>
  A line of eighteen characters has no PIN-code reply submitted: \<open>fgets\<close> keeps its first
  seventeen characters, which do not fit the field \<open>pin_code\<close>. Of a line with a NUL
  character in it, the PIN sent is the part before the NUL.
\<close>

theorem request_pin_long_or_binary_line:
  "request_pin 0 8 example_pin_request
     (example_state\<lparr>stdin := ''123456789012345678'' @ [CHR ''\<newline>'']\<rparr>) =
     Inl (Write_past_pin_code 17) \<and>
   map_sum id requests
     (request_pin 0 8 example_pin_request
        (example_state\<lparr>stdin := ''12'' @ [CHR 0x00] @ ''34'' @ [CHR ''\<newline>'']\<rparr>)) =
     Inr [\<lparr>req_opcode = MGMT_OP_PIN_CODE_REPLY, req_index = 0, req_length = 24,
           req_param = Cp_pin_code_reply
                         \<lparr>bdaddr = [0x66, 0x55, 0x44, 0x33, 0x22, 0x11], type = 0\<rparr> 2
                         (''12'' @ replicate 14 (CHR 0x00)),
           req_callback = Pin_rsp\<rparr>]"
  by (simp add: request_pin_def example_state_def example_pin_request_def fgets_def
        mgmt_pin_reply_def strlen_def sizeof_defs Let_def requests_def mgmt_reply_def
        mgmt_send_def example_mgmt_def get_addr_def get_bytes_def get_u8_def)

text \<open>
  Claim C5, as the code has it. For a PIN-request event of the right length, on a transport
  that accepts the write: if the operator input is at its end or begins with the line
  terminator, exactly one request is submitted, a PIN negative reply for the address of the
  event. If the input begins with a non-empty line of at most sixteen characters (the capacity
  of the field \<open>pin_code\<close>) that holds no NUL character and is ended by the line terminator
  or by the end of the input, exactly one request is submitted, a PIN-code reply for the
  address of the event whose \<open>pin_code\<close> is the line without its terminator, padded with
  NUL, and whose \<open>pin_len\<close> is the length of the line.
\<close>

theorem request_pin_reply:
  assumes "unat len = sizeof_mgmt_ev_pin_code_request" and "transport_ok (mgmt s)"
  shows "(stdin s = [] \<or> hd (stdin s) = CHR ''\<newline>'' \<longrightarrow>
            (\<exists>s'. request_pin index len param s = Inr s' \<and>
                  requests s' = requests s @
                    [\<lparr>req_opcode = MGMT_OP_PIN_CODE_NEG_REPLY, req_index = index,
                      req_length = of_nat sizeof_mgmt_cp_pin_code_neg_reply,
                      req_param = Cp_pin_code_neg_reply (get_addr param 0),
                      req_callback = Pin_neg_rsp\<rparr>])) \<and>
         (stdin s = line @ rest \<and> (rest = [] \<or> hd rest = CHR ''\<newline>'') \<and> line \<noteq> [] \<and>
          CHR ''\<newline>'' \<notin> set line \<and> CHR 0x00 \<notin> set line \<and> length line \<le> sizeof_pin_code \<longrightarrow>
            (\<exists>s'. request_pin index len param s = Inr s' \<and>
                  requests s' = requests s @
                    [\<lparr>req_opcode = MGMT_OP_PIN_CODE_REPLY, req_index = index,
                      req_length = of_nat sizeof_mgmt_cp_pin_code_reply,
                      req_param = Cp_pin_code_reply (get_addr param 0) (of_nat (length line))
                                    (line @ replicate (sizeof_pin_code - length line) (CHR 0x00)),
                      req_callback = Pin_rsp\<rparr>]))"
  using request_pin_rejects [OF assms, of index param]
    request_pin_accepts [OF assms, of line rest index param]
  by blast

theorem request_pin_reply_witness:
  "unat (8 :: u16) = sizeof_mgmt_ev_pin_code_request \<and>
   transport_ok (mgmt example_state) \<and>
   (\<exists>s'. request_pin 0 8 example_pin_request (example_state\<lparr>stdin := [CHR ''\<newline>'']\<rparr>) = Inr s' \<and>
         requests s' =
           [\<lparr>req_opcode = MGMT_OP_PIN_CODE_NEG_REPLY, req_index = 0, req_length = 7,
             req_param = Cp_pin_code_neg_reply
                           \<lparr>bdaddr = [0x66, 0x55, 0x44, 0x33, 0x22, 0x11], type = 0\<rparr>,
             req_callback = Pin_neg_rsp\<rparr>]) \<and>
   (\<exists>s'. request_pin 0 8 example_pin_request
           (example_state\<lparr>stdin := ''1234'' @ [CHR ''\<newline>'']\<rparr>) = Inr s' \<and>
         requests s' =
           [\<lparr>req_opcode = MGMT_OP_PIN_CODE_REPLY, req_index = 0, req_length = 24,
             req_param = Cp_pin_code_reply
                           \<lparr>bdaddr = [0x66, 0x55, 0x44, 0x33, 0x22, 0x11], type = 0\<rparr> 4
                           (''1234'' @ replicate 12 (CHR 0x00)),
             req_callback = Pin_rsp\<rparr>])"
proof -
  have h1: "unat (8 :: u16) = sizeof_mgmt_ev_pin_code_request"
    by (simp add: sizeof_defs)
  have h2: "transport_ok (mgmt (example_state\<lparr>stdin := inp\<rparr>))" for inp
    by (simp add: example_state_def example_mgmt_def)
  have addr: "get_addr example_pin_request 0 =
      \<lparr>bdaddr = [0x66, 0x55, 0x44, 0x33, 0x22, 0x11], type = 0\<rparr>"
    by (simp add: get_addr_def get_bytes_def get_u8_def example_pin_request_def)
  have empty: "requests (example_state\<lparr>stdin := inp\<rparr>) = []" for inp
    by (simp add: requests_def example_state_def example_mgmt_def)
  from request_pin_reply [OF h1 h2, of "[CHR ''\<newline>'']" 0 example_pin_request "[]" "[]"]
       request_pin_reply [OF h1 h2, of "''1234'' @ [CHR ''\<newline>'']" 0 example_pin_request
         "''1234''" "[CHR ''\<newline>'']"]
  show ?thesis
    using h1 h2 [of "stdin example_state"] by (simp add: addr empty sizeof_defs)
qed

text \<open>
  Claim C10 asks that the length passed to \<open>mgmt_pin_reply\<close> never exceed the sixteen
  bytes of \<open>pin_code\<close>. The buffer of eighteen characters lets \<open>fgets\<close> return
  seventeen characters of a line without a newline among them; \<open>request_pin\<close> passes
  the length 17, and the copy writes past the field.
\<close>

theorem request_pin_seventeen_characters:
  "request_pin 0 8 example_pin_request (example_state\<lparr>stdin := ''12345678901234567''\<rparr>) =
     Inl (Write_past_pin_code 17) \<and>
   request_pin 0 8 example_pin_request
     (example_state\<lparr>stdin := ''12345678901234567'' @ [CHR ''\<newline>'']\<rparr>) =
     Inl (Write_past_pin_code 17) \<and>
   sizeof_pin_code < 17"
  by (simp add: request_pin_def example_state_def example_pin_request_def fgets_def
        mgmt_pin_reply_def strlen_def sizeof_defs Let_def)

subsection \<open>User confirmation requests\<close>



text \<open>
  The input left out above: a line that begins with a NUL character takes \<open>user_confirm\<close>
  to the read of \<^verbatim>\<open>rsp[rsp_len - 1]\<close> with \<open>rsp_len = 0\<close>.
\<close>

lemma user_confirm_reads_before_buffer:
  "user_confirm 0 12 example_confirm_request
     (example_state\<lparr>stdin := [CHR 0x00, CHR ''\<newline>'']\<rparr>) = Inl Read_outside_buffer"
  by (simp add: user_confirm_def example_state_def example_confirm_request_def fgets_def
        strlen_def sizeof_defs Let_def)

end
